theory Spec2Isabelle
  imports Complex_Main "HOL-Library.AList"
begin

section \<open>Values, arrays and errors\<close>

text \<open>
  The notebook computes on Python floats and on one-dimensional NumPy float arrays.
  A float is modelled as either a finite number, held as an exact real, or the
  not-a-number value, which is the notebook's missing marker (\<^verbatim>\<open>np.NaN\<close>).
  Rounding, overflow, infinities and signed zeros are outside this model: finite
  arithmetic is exact.
\<close>

datatype fl = Num real | NaN

text \<open>The Python exceptions that the modelled cells can raise.\<close>

datatype error = KeyError | ValueError | IndexError | ZeroDivisionError | QhullError

type_synonym ndarray = "fl list"

text \<open>
  A beam record \<^verbatim>\<open>Di\<close> is a Python dict from field names to arrays: a list of
  key-value pairs in insertion order, with no key twice.
\<close>

type_synonym beam = "(string \<times> ndarray) list"

subsection \<open>IEEE arithmetic: not-a-number propagates through every operation\<close>

fun lift2 :: "(real \<Rightarrow> real \<Rightarrow> real) \<Rightarrow> fl \<Rightarrow> fl \<Rightarrow> fl" where
  "lift2 f (Num a) (Num b) = Num (f a b)"
| "lift2 f (Num a) NaN = NaN"
| "lift2 f NaN b = NaN"

definition fadd :: "fl \<Rightarrow> fl \<Rightarrow> fl" where
  "fadd = lift2 (\<lambda>a b. a + b)"

definition fsub :: "fl \<Rightarrow> fl \<Rightarrow> fl" where
  "fsub = lift2 (\<lambda>a b. a - b)"

definition fmul :: "fl \<Rightarrow> fl \<Rightarrow> fl" where
  "fmul = lift2 (\<lambda>a b. a * b)"

text \<open>
  NumPy division never raises. \<^verbatim>\<open>0.0/0.0\<close> is not-a-number; a non-zero number over
  zero is an infinity, which this model cannot hold. The cells modelled below reach a
  zero divisor only as \<^verbatim>\<open>0.0/0\<close> (the mean of an empty selection): in the thickness
  cell the Python division \<^verbatim>\<open>1/rho_ice\<close> has already raised when \<^verbatim>\<open>rho_ice\<close> is zero.
\<close>

fun fdiv :: "fl \<Rightarrow> fl \<Rightarrow> fl" where
  "fdiv (Num a) (Num b) = (if b = 0 then NaN else Num (a / b))"
| "fdiv (Num a) NaN = NaN"
| "fdiv NaN b = NaN"

text \<open>The comparisons \<^verbatim>\<open>==\<close>, \<^verbatim>\<open><\<close> and \<^verbatim>\<open>>\<close> are false whenever an operand is not-a-number.\<close>

fun feq :: "fl \<Rightarrow> fl \<Rightarrow> bool" where
  "feq (Num a) (Num b) = (a = b)"
| "feq (Num a) NaN = False"
| "feq NaN b = False"

fun flt :: "fl \<Rightarrow> fl \<Rightarrow> bool" where
  "flt (Num a) (Num b) = (a < b)"
| "flt (Num a) NaN = False"
| "flt NaN b = False"

definition fgt :: "fl \<Rightarrow> fl \<Rightarrow> bool" where
  "fgt a b = flt b a"

definition isnan :: "fl \<Rightarrow> bool" where
  "isnan v = (case v of NaN \<Rightarrow> True | Num a \<Rightarrow> False)"

subsection \<open>Python scalar operations, which raise where NumPy would not\<close>

text \<open>
  \<^verbatim>\<open>a / b\<close> on Python floats raises \<^verbatim>\<open>ZeroDivisionError\<close> when \<^verbatim>\<open>b\<close> is zero.
\<close>

fun py_truediv :: "fl \<Rightarrow> fl \<Rightarrow> error + fl" where
  "py_truediv a (Num b) = (if b = 0 then Inl ZeroDivisionError else Inr (fdiv a (Num b)))"
| "py_truediv a NaN = Inr NaN"

text \<open>
  \<^verbatim>\<open>x ** n\<close> for a Python float \<^verbatim>\<open>x\<close> and an integer \<^verbatim>\<open>n\<close>: anything to the power
  zero is one, not-a-number to any other power is not-a-number, and zero to a negative
  power raises \<^verbatim>\<open>ZeroDivisionError\<close>.
\<close>

fun py_pow :: "fl \<Rightarrow> int \<Rightarrow> error + fl" where
  "py_pow NaN n = Inr (if n = 0 then Num 1 else NaN)"
| "py_pow (Num x) n =
     (if x = 0 \<and> n < 0 then Inl ZeroDivisionError else Inr (Num (x powi n)))"

subsection \<open>Exceptions, dict operations and NumPy broadcasting\<close>

text \<open>A statement that raises ends the computation; otherwise its value is passed on.\<close>

definition and_then :: "error + 'a \<Rightarrow> ('a \<Rightarrow> error + 'b) \<Rightarrow> error + 'b" where
  "and_then r f = (case r of Inl e \<Rightarrow> Inl e | Inr v \<Rightarrow> f v)"

text \<open>
  \<^verbatim>\<open>d[key]\<close> raises \<^verbatim>\<open>KeyError\<close> for a key the dict does not hold; \<^verbatim>\<open>d[key] = v\<close>
  replaces the value of a key in place or appends a new pair.
\<close>

definition getitem :: "(string \<times> 'a) list \<Rightarrow> string \<Rightarrow> error + 'a" where
  "getitem d k = (case map_of d k of None \<Rightarrow> Inl KeyError | Some v \<Rightarrow> Inr v)"

definition setitem :: "(string \<times> 'a) list \<Rightarrow> string \<Rightarrow> 'a \<Rightarrow> (string \<times> 'a) list" where
  "setitem d k v = AList.update k v d"

text \<open>
  An elementwise operation on two one-dimensional arrays: the lengths agree, or one of
  them is 1 and that array is repeated; otherwise NumPy raises \<^verbatim>\<open>ValueError\<close>.
\<close>

definition np_broadcast2 :: "(fl \<Rightarrow> fl \<Rightarrow> fl) \<Rightarrow> ndarray \<Rightarrow> ndarray \<Rightarrow> error + ndarray" where
  "np_broadcast2 f xs ys =
     (if length xs = length ys then Inr (map2 f xs ys)
      else if length xs = 1 then Inr (map (f (hd xs)) ys)
      else if length ys = 1 then Inr (map (\<lambda>x. f x (hd ys)) xs)
      else Inl ValueError)"

section \<open>Extraction of the beam records\<close>

subsection \<open>Fill values\<close>

text \<open>
  The values of a dataset are a float array or an integer array.
\<close>

datatype h5data = FloatArr "fl list" | IntArr "int list"

text \<open>
  \<^verbatim>\<open>temp[dataset][temp[dataset] == fill_value] = np.NaN\<close>: the comparison gives a
  boolean array, and the assignment writes not-a-number where it is true. A boolean
  index of another length raises \<^verbatim>\<open>IndexError\<close>. On an integer array the
  assignment raises \<^verbatim>\<open>ValueError\<close> whatever the comparison gave: NumPy converts the
  value to the array's type first, and not-a-number has no integer value.
\<close>

definition np_eq :: "ndarray \<Rightarrow> fl \<Rightarrow> bool list" where
  "np_eq arr v = map (\<lambda>a. feq a v) arr"

fun setitem_mask :: "ndarray \<Rightarrow> bool list \<Rightarrow> fl \<Rightarrow> error + ndarray" where
  "setitem_mask [] [] v = Inr []"
| "setitem_mask (a # arr) (m # ms) v =
     and_then (setitem_mask arr ms v) (\<lambda>r. Inr ((if m then v else a) # r))"
| "setitem_mask [] (m # ms) v = Inl IndexError"
| "setitem_mask (a # arr) [] v = Inl IndexError"

fun fill_to_nan :: "h5data \<Rightarrow> fl \<Rightarrow> error + h5data" where
  "fill_to_nan (FloatArr arr) fill_value =
     and_then (setitem_mask arr (np_eq arr fill_value) NaN) (\<lambda>r. Inr (FloatArr r))"
| "fill_to_nan (IntArr arr) fill_value = Inl ValueError"

subsection \<open>Reading one beam of one file\<close>

text \<open>
  An HDF5 file maps a dataset path to the dataset's values and, when the dataset has
  one, its \<^verbatim>\<open>_FillValue\<close> attribute. The record of a beam holds every array by its
  values: the later cells compute on them as floats, and the one statement that
  depends on the type of an array that was read, the index assignment of the quality
  filter, is a parameter below.
\<close>

datatype dataset = Dataset (data: h5data) (fill_attr: "fl option")

fun as_float :: "h5data \<Rightarrow> ndarray" where
  "as_float (FloatArr arr) = arr"
| "as_float (IntArr arr) = map (\<lambda>n. Num (real_of_int n)) arr"

type_synonym h5file = "string \<rightharpoonup> dataset"

definition datasets :: "(string \<times> string list) list" where
  "datasets =
     [(''land_ice_segments'', [''h_li'', ''latitude'', ''longitude'', ''atl06_quality_summary'']),
      (''land_ice_segments/geophysical'', [''tide_load'', ''dac'', ''tide_ocean'']),
      (''land_ice_segments/dem'', [''geoid_h''])]"

definition digit :: "nat \<Rightarrow> char" where
  "digit n = ''0123456789'' ! n"

function str_nat :: "nat \<Rightarrow> string" where
  "str_nat n = (if n < 10 then [digit n] else str_nat (n div 10) @ [digit (n mod 10)])"
  by pat_completeness auto
termination
  by (relation "measure id") auto

text \<open>\<^verbatim>\<open>DS = '/gt%d%s/%s/%s' % (pair, beam, group, dataset)\<close>\<close>

definition DS_path :: "nat \<Rightarrow> string \<Rightarrow> string \<Rightarrow> string \<Rightarrow> string" where
  "DS_path pair beam grp dataset =
     ''/gt'' @ str_nat pair @ beam @ ''/'' @ grp @ ''/'' @ dataset"

text \<open>
  The body of the \<^verbatim>\<open>try\<close>: \<^verbatim>\<open>h5f[DS]\<close> raises \<^verbatim>\<open>KeyError\<close> for a path the file
  does not hold; the values are copied, and the fill value, if declared, replaced.
\<close>

definition read_dataset :: "h5file \<Rightarrow> string \<Rightarrow> error + ndarray" where
  "read_dataset h5f DS =
     (case h5f DS of None \<Rightarrow> Inl KeyError
      | Some d \<Rightarrow>
          (case fill_attr d of None \<Rightarrow> Inr (as_float (data d))
           | Some fill_value \<Rightarrow>
               and_then (fill_to_nan (data d) fill_value) (\<lambda>v. Inr (as_float v))))"

text \<open>
  The loops over the datasets of a group and over the groups.
  \<^verbatim>\<open>except KeyError: pass\<close> goes on with the next dataset; any other exception ends
  the run.
\<close>

fun read_fields :: "h5file \<Rightarrow> nat \<Rightarrow> string \<Rightarrow> string \<Rightarrow> string list \<Rightarrow> beam \<Rightarrow> error + beam" where
  "read_fields h5f pair beam grp [] temp = Inr temp"
| "read_fields h5f pair beam grp (dataset # rest) temp =
     (case read_dataset h5f (DS_path pair beam grp dataset) of
        Inl e \<Rightarrow> (if e = KeyError then read_fields h5f pair beam grp rest temp else Inl e)
      | Inr arr \<Rightarrow> read_fields h5f pair beam grp rest (setitem temp dataset arr))"

fun read_groups :: "h5file \<Rightarrow> nat \<Rightarrow> string \<Rightarrow> (string \<times> string list) list \<Rightarrow> beam \<Rightarrow> error + beam" where
  "read_groups h5f pair beam [] temp = Inr temp"
| "read_groups h5f pair beam ((grp, names) # rest) temp =
     and_then (read_fields h5f pair beam grp names temp) (read_groups h5f pair beam rest)"

text \<open>
  The body of \<^verbatim>\<open>if len(temp) > 0\<close>. Three operations are parameters:
  \<^verbatim>\<open>ll2ps\<close>, the projection of \<^verbatim>\<open>is2_utils\<close>; \<^verbatim>\<open>np.empty_like\<close>, whose result has
  arbitrary contents; and the index assignment
  \<^verbatim>\<open>temp['h_li'][temp['atl06_quality_summary']] = np.NaN\<close>. The lookups of the dict are
  modelled, in the order Python evaluates them.
\<close>

definition finish_beam ::
  "(ndarray \<Rightarrow> ndarray \<Rightarrow> error + ndarray \<times> ndarray) \<Rightarrow> (ndarray \<Rightarrow> ndarray) \<Rightarrow>
   (ndarray \<Rightarrow> ndarray \<Rightarrow> error + ndarray) \<Rightarrow> beam \<Rightarrow> error + beam" where
  "finish_beam ll2ps empty_like set_nan temp =
     and_then (getitem temp ''longitude'') (\<lambda>lon.
     and_then (getitem temp ''latitude'') (\<lambda>lat.
     and_then (ll2ps lon lat) (\<lambda>(x, y).
     (let temp1 = setitem (setitem temp ''x'' x) ''y'' y;
          temp2 = setitem temp1 ''mask'' (empty_like y);
          temp3 = setitem temp2 ''FAC_interp'' (empty_like y)
      in and_then (getitem temp3 ''h_li'') (\<lambda>h_li.
         and_then (getitem temp3 ''atl06_quality_summary'') (\<lambda>q.
         and_then (set_nan h_li q) (\<lambda>h_li'.
         Inr (setitem temp3 ''h_li'' h_li'))))))))"

text \<open>
  One pass of the innermost loop: the record that is appended to \<^verbatim>\<open>D6\<close>, or none
  when no dataset of the beam was read.
\<close>

definition extract_beam ::
  "(ndarray \<Rightarrow> ndarray \<Rightarrow> error + ndarray \<times> ndarray) \<Rightarrow> (ndarray \<Rightarrow> ndarray) \<Rightarrow>
   (ndarray \<Rightarrow> ndarray \<Rightarrow> error + ndarray) \<Rightarrow> h5file \<Rightarrow> nat \<Rightarrow> string \<Rightarrow> error + beam option" where
  "extract_beam ll2ps empty_like set_nan h5f pair beam =
     and_then (read_groups h5f pair beam datasets []) (\<lambda>temp.
       if length temp > 0
       then and_then (finish_beam ll2ps empty_like set_nan temp) (\<lambda>t. Inr (Some t))
       else Inr None)"

text \<open>
  The loops over the beams, the pairs and every other file, appending to \<^verbatim>\<open>D6\<close>.
\<close>

fun extract_beams ::
  "(ndarray \<Rightarrow> ndarray \<Rightarrow> error + ndarray \<times> ndarray) \<Rightarrow> (ndarray \<Rightarrow> ndarray) \<Rightarrow>
   (ndarray \<Rightarrow> ndarray \<Rightarrow> error + ndarray) \<Rightarrow> h5file \<Rightarrow> nat \<Rightarrow> string list \<Rightarrow>
   beam list \<Rightarrow> error + beam list" where
  "extract_beams ll2ps empty_like set_nan h5f pair [] D6 = Inr D6"
| "extract_beams ll2ps empty_like set_nan h5f pair (beam # beams) D6 =
     and_then (extract_beam ll2ps empty_like set_nan h5f pair beam) (\<lambda>r.
       extract_beams ll2ps empty_like set_nan h5f pair beams
         (case r of None \<Rightarrow> D6 | Some t \<Rightarrow> D6 @ [t]))"

fun extract_pairs ::
  "(ndarray \<Rightarrow> ndarray \<Rightarrow> error + ndarray \<times> ndarray) \<Rightarrow> (ndarray \<Rightarrow> ndarray) \<Rightarrow>
   (ndarray \<Rightarrow> ndarray \<Rightarrow> error + ndarray) \<Rightarrow> h5file \<Rightarrow> nat list \<Rightarrow> string list \<Rightarrow>
   beam list \<Rightarrow> error + beam list" where
  "extract_pairs ll2ps empty_like set_nan h5f [] beams D6 = Inr D6"
| "extract_pairs ll2ps empty_like set_nan h5f (pair # pairs) beams D6 =
     and_then (extract_beams ll2ps empty_like set_nan h5f pair beams D6)
       (extract_pairs ll2ps empty_like set_nan h5f pairs beams)"

fun every_other :: "'a list \<Rightarrow> 'a list" where
  "every_other [] = []"
| "every_other [f] = [f]"
| "every_other (f # g # fs) = f # every_other fs"

fun extract_files ::
  "(ndarray \<Rightarrow> ndarray \<Rightarrow> error + ndarray \<times> ndarray) \<Rightarrow> (ndarray \<Rightarrow> ndarray) \<Rightarrow>
   (ndarray \<Rightarrow> ndarray \<Rightarrow> error + ndarray) \<Rightarrow> h5file list \<Rightarrow> beam list \<Rightarrow> error + beam list" where
  "extract_files ll2ps empty_like set_nan [] D6 = Inr D6"
| "extract_files ll2ps empty_like set_nan (h5f # files) D6 =
     and_then (extract_pairs ll2ps empty_like set_nan h5f [1, 2, 3] [''r''] D6)
       (extract_files ll2ps empty_like set_nan files)"

definition extract_D6 ::
  "(ndarray \<Rightarrow> ndarray \<Rightarrow> error + ndarray \<times> ndarray) \<Rightarrow> (ndarray \<Rightarrow> ndarray) \<Rightarrow>
   (ndarray \<Rightarrow> ndarray \<Rightarrow> error + ndarray) \<Rightarrow> h5file list \<Rightarrow> error + beam list" where
  "extract_D6 ll2ps empty_like set_nan files =
     extract_files ll2ps empty_like set_nan (every_other files) []"

subsection \<open>Three small files\<close>

text \<open>
  A file whose first right beam has the four datasets of \<^verbatim>\<open>land_ice_segments\<close> and
  none of the others, with quality flags that are integers and declare no fill value;
  a file that has the height only; and a file that has only quality flags, integers
  that declare a fill value.
\<close>

definition file_no_geoid :: h5file where
  "file_no_geoid =
     [''/gt1r/land_ice_segments/h_li'' \<mapsto>
        Dataset (FloatArr [Num 10, Num (- 9999)]) (Some (Num (- 9999))),
      ''/gt1r/land_ice_segments/latitude'' \<mapsto> Dataset (FloatArr [Num (- 80), Num (- 81)]) None,
      ''/gt1r/land_ice_segments/longitude'' \<mapsto> Dataset (FloatArr [Num 150, Num 151]) None,
      ''/gt1r/land_ice_segments/atl06_quality_summary'' \<mapsto> Dataset (IntArr [0, 0]) None]"

definition file_h_li_only :: h5file where
  "file_h_li_only =
     [''/gt1r/land_ice_segments/h_li'' \<mapsto>
        Dataset (FloatArr [Num 10, Num (- 9999)]) (Some (Num (- 9999)))]"

definition file_int_fill :: h5file where
  "file_int_fill =
     [''/gt1r/land_ice_segments/atl06_quality_summary'' \<mapsto>
        Dataset (IntArr [0, 1]) (Some (Num 127))]"

section \<open>Height above mean sea level and ice-shelf thickness\<close>

text \<open>
  \<^verbatim>\<open>h_MSL = Di['h_li'] - MDT_corr - Di['geoid_h']\<close>, with \<^verbatim>\<open>MDT_corr\<close> a Python float.
\<close>

definition h_MSL :: "fl \<Rightarrow> beam \<Rightarrow> error + ndarray" where
  "h_MSL MDT_corr Di =
     and_then (getitem Di ''h_li'') (\<lambda>h_li.
     and_then (getitem Di ''geoid_h'') (\<lambda>geoid_h.
     np_broadcast2 fsub (map (\<lambda>h. fsub h MDT_corr) h_li) geoid_h))"

text \<open>
  \<^verbatim>\<open>thickness = ((1/rho_ice - 1/rho_ocean)**(-1)) * ((h_MSL - Di['FAC_interp'])/rho_ice)\<close>.
  The left factor is computed first, on Python floats; the right factor is an array.
\<close>

definition hydrostatic_factor :: "fl \<Rightarrow> fl \<Rightarrow> error + fl" where
  "hydrostatic_factor rho_ice rho_ocean =
     and_then (py_truediv (Num 1) rho_ice) (\<lambda>a.
     and_then (py_truediv (Num 1) rho_ocean) (\<lambda>b.
     py_pow (fsub a b) (- 1)))"

definition thickness :: "fl \<Rightarrow> fl \<Rightarrow> ndarray \<Rightarrow> beam \<Rightarrow> error + ndarray" where
  "thickness rho_ice rho_ocean h_msl Di =
     and_then (hydrostatic_factor rho_ice rho_ocean) (\<lambda>c.
     and_then (getitem Di ''FAC_interp'') (\<lambda>fac.
     and_then (np_broadcast2 fsub h_msl fac) (\<lambda>d.
     Inr (map (\<lambda>v. fmul c (fdiv v rho_ice)) d))))"

text \<open>The body of the loop \<^verbatim>\<open>for Di in D6\<close>, without the plotting.\<close>

definition thickness_record :: "fl \<Rightarrow> fl \<Rightarrow> fl \<Rightarrow> beam \<Rightarrow> error + ndarray" where
  "thickness_record MDT_corr rho_ice rho_ocean Di =
     and_then (h_MSL MDT_corr Di) (\<lambda>h_msl. thickness rho_ice rho_ocean h_msl Di)"

text \<open>The loop itself: the first exception ends the run.\<close>

fun thickness_loop :: "fl \<Rightarrow> fl \<Rightarrow> fl \<Rightarrow> beam list \<Rightarrow> error + ndarray list" where
  "thickness_loop MDT_corr rho_ice rho_ocean [] = Inr []"
| "thickness_loop MDT_corr rho_ice rho_ocean (Di # D6) =
     and_then (thickness_record MDT_corr rho_ice rho_ocean Di) (\<lambda>t.
     and_then (thickness_loop MDT_corr rho_ice rho_ocean D6) (\<lambda>ts.
     Inr (t # ts)))"

section \<open>Firn air content: subsetting and interpolation\<close>

text \<open>
  The model grid is held as one list of cells. \<^verbatim>\<open>np.where\<close> on a conjunction of
  comparisons of \<^verbatim>\<open>lon_fac\<close> and \<^verbatim>\<open>lat_fac\<close> gives the indices of the cells inside the
  open longitude-latitude box; indexing an array with them raises \<^verbatim>\<open>IndexError\<close>
  when an index is out of range.
\<close>

type_synonym point = "real \<times> real"

type_synonym simplex = "nat \<times> nat \<times> nat"

definition in_box :: "real \<Rightarrow> real \<Rightarrow> real \<Rightarrow> real \<Rightarrow> fl \<times> fl \<Rightarrow> bool" where
  "in_box lon_min lon_max lat_min lat_max c =
     (fgt (fst c) (Num lon_min) \<and> flt (fst c) (Num lon_max) \<and>
      fgt (snd c) (Num lat_min) \<and> flt (snd c) (Num lat_max))"

definition np_where :: "('a \<Rightarrow> bool) \<Rightarrow> 'a list \<Rightarrow> nat list" where
  "np_where P xs = filter (\<lambda>i. P (xs ! i)) [0..<length xs]"

definition take_inds :: "'a list \<Rightarrow> nat list \<Rightarrow> error + 'a list" where
  "take_inds arr inds =
     (if list_all (\<lambda>i. i < length arr) inds then Inr (map (\<lambda>i. arr ! i) inds)
      else Inl IndexError)"

text \<open>
  The subset around Byrd Glacier: the source points \<^verbatim>\<open>xy\<close> and their values
  \<^verbatim>\<open>mean_fac_byrd\<close>. Nothing but the box selects the cells.
\<close>

definition subset_byrd ::
  "(fl \<times> fl) list \<Rightarrow> point list \<Rightarrow> ndarray \<Rightarrow> error + point list \<times> ndarray" where
  "subset_byrd lonlat_fac xy_fac meanFirnAir_16 =
     (let inds = np_where (in_box 147 163 (- 82) (- 78)) lonlat_fac in
      and_then (take_inds meanFirnAir_16 inds) (\<lambda>mean_fac_byrd.
      and_then (take_inds xy_fac inds) (\<lambda>xy.
      Inr (xy, mean_fac_byrd))))"

text \<open>
  \<^verbatim>\<open>interpolate.griddata(points, values, xi)\<close> with its defaults, \<^verbatim>\<open>method='linear'\<close>
  and \<^verbatim>\<open>fill_value=nan\<close>. SciPy has Qhull triangulate the source points, then looks
  for a triangle that holds the query point and combines the values at its vertices
  with the barycentric coordinates of the point; a query point for which it finds no
  triangle gets the fill value.

  The triangulation fails with \<^verbatim>\<open>ValueError\<close> when there is no source point and with
  \<^verbatim>\<open>QhullError\<close> when the source points have no triangle, that is, when they all lie
  on one line (fewer than three distinct points among them). Otherwise Qhull returns
  triangles, each three indices into the source points; the model takes these as
  given, and \<open>indexes\<close> says what is used of them: every triangle has its corners
  among the source points, and the corners are not on one line. (Where Qhull returns
  a triangle whose corners are on one line, or so nearly that the barycentric
  coordinates cannot be computed in floating point, SciPy searches its neighbours
  with the wider tolerance \<^verbatim>\<open>sqrt(DBL_EPSILON)\<close>; this is not modelled.)

  The search allows for rounding: with \<^verbatim>\<open>eps = 100 * DBL_EPSILON\<close>, a query point
  farther than \<open>eps\<close> outside the bounding box of the source points is outside at once,
  and a triangle holds a point when each barycentric coordinate lies between
  \<open>- eps\<close> and \<open>1 + eps\<close>. So a point just outside a triangle is accepted and gets a
  value extrapolated from it. The first triangle of the list that passes the test
  stands for the one SciPy's walk ends in. A query point with a not-a-number
  coordinate lies in no triangle.
\<close>

definition eps :: real where
  "eps = 100 / 2 ^ 52"

definition cross :: "point \<Rightarrow> point \<Rightarrow> point \<Rightarrow> real" where
  "cross p0 p1 p2 =
     (fst p0 - fst p2) * (snd p1 - snd p2) - (fst p1 - fst p2) * (snd p0 - snd p2)"

definition degenerate :: "point list \<Rightarrow> bool" where
  "degenerate points =
     list_all (\<lambda>p0. list_all (\<lambda>p1. list_all (\<lambda>p2. cross p0 p1 p2 = 0) points) points) points"


definition fully_outside :: "point list \<Rightarrow> point \<Rightarrow> bool" where
  "fully_outside points q =
     (fst q < Min (set (map fst points)) - eps \<or> fst q > Max (set (map fst points)) + eps \<or>
      snd q < Min (set (map snd points)) - eps \<or> snd q > Max (set (map snd points)) + eps)"

definition barycentric :: "point \<Rightarrow> point \<Rightarrow> point \<Rightarrow> point \<Rightarrow> (real \<times> real \<times> real) option" where
  "barycentric p0 p1 p2 q =
     (let det = cross p0 p1 p2 in
      if det = 0 then None
      else
        (let c0 = ((fst q - fst p2) * (snd p1 - snd p2) - (fst p1 - fst p2) * (snd q - snd p2)) / det;
             c1 = ((fst p0 - fst p2) * (snd q - snd p2) - (fst q - fst p2) * (snd p0 - snd p2)) / det
         in Some (c0, c1, 1 - c0 - c1)))"

definition coords_in :: "point list \<Rightarrow> point \<Rightarrow> simplex \<Rightarrow> (real \<times> real \<times> real) option" where
  "coords_in points q s =
     (case s of (i, j, k) \<Rightarrow> barycentric (points ! i) (points ! j) (points ! k) q)"

definition in_simplex :: "point list \<Rightarrow> point \<Rightarrow> simplex \<Rightarrow> bool" where
  "in_simplex points q s =
     (case coords_in points q s of None \<Rightarrow> False
      | Some (c0, c1, c2) \<Rightarrow>
          - eps \<le> c0 \<and> c0 \<le> 1 + eps \<and> - eps \<le> c1 \<and> c1 \<le> 1 + eps \<and>
          - eps \<le> c2 \<and> c2 \<le> 1 + eps)"

definition find_simplex :: "simplex list \<Rightarrow> point list \<Rightarrow> point \<Rightarrow> simplex option" where
  "find_simplex tri points q =
     (if fully_outside points q then None else find (in_simplex points q) tri)"

definition combine :: "ndarray \<Rightarrow> simplex \<Rightarrow> real \<times> real \<times> real \<Rightarrow> fl" where
  "combine vals s c =
     (case s of (i, j, k) \<Rightarrow> (case c of (c0, c1, c2) \<Rightarrow>
        fadd (fadd (fadd (Num 0) (fmul (Num c0) (vals ! i))) (fmul (Num c1) (vals ! j)))
          (fmul (Num c2) (vals ! k))))"

definition linear_interp :: "simplex list \<Rightarrow> point list \<Rightarrow> ndarray \<Rightarrow> fl \<times> fl \<Rightarrow> fl" where
  "linear_interp tri points vals xi =
     (case xi of
        (Num qx, Num qy) \<Rightarrow>
          (case find_simplex tri points (qx, qy) of None \<Rightarrow> NaN
           | Some s \<Rightarrow>
               (case coords_in points (qx, qy) s of None \<Rightarrow> NaN
                | Some c \<Rightarrow> combine vals s c))
      | _ \<Rightarrow> NaN)"

text \<open>
  The triangulation is built before the values are looked at; a number of values
  other than the number of points raises \<^verbatim>\<open>ValueError\<close>. (Older SciPy versions check
  the values first; the two orders differ only for source points that are on one
  line and have the wrong number of values.)
\<close>

definition griddata :: "simplex list \<Rightarrow> point list \<Rightarrow> ndarray \<Rightarrow> (fl \<times> fl) list \<Rightarrow> error + ndarray" where
  "griddata tri points vals xi =
     (if points = [] then Inl ValueError
      else if degenerate points then Inl QhullError
      else if length vals \<noteq> length points then Inl ValueError
      else Inr (map (linear_interp tri points vals) xi))"

text \<open>
  The body of the loop \<^verbatim>\<open>for Di in D6\<close> of the interpolation cell, without the plotting:
  the query points are the columns \<^verbatim>\<open>Di['x']\<close> and \<^verbatim>\<open>Di['y']\<close>.
\<close>

definition xy_data :: "ndarray \<Rightarrow> ndarray \<Rightarrow> error + (fl \<times> fl) list" where
  "xy_data x y =
     (if length y = length x then Inr (zip x y)
      else if length y = 1 then Inr (map (\<lambda>a. (a, hd y)) x)
      else Inl ValueError)"

definition interp_record :: "simplex list \<Rightarrow> point list \<Rightarrow> ndarray \<Rightarrow> beam \<Rightarrow> error + beam" where
  "interp_record tri xy mean_fac_byrd Di =
     and_then (getitem Di ''x'') (\<lambda>x.
     and_then (getitem Di ''y'') (\<lambda>y.
     and_then (xy_data x y) (\<lambda>q.
     and_then (griddata tri xy mean_fac_byrd q) (\<lambda>r.
     Inr (setitem Di ''FAC_interp'' r)))))"

section \<open>Time series: regional means and cumulative integration\<close>

subsection \<open>Means\<close>

text \<open>
  \<^verbatim>\<open>np.mean\<close> is the sum over the count: not-a-number as soon as one element is, and
  \<^verbatim>\<open>0.0/0\<close> for an empty array. \<^verbatim>\<open>np.nanmean\<close> drops the not-a-number elements first.
\<close>

definition np_sum :: "ndarray \<Rightarrow> fl" where
  "np_sum xs = foldl fadd (Num 0) xs"

definition np_mean :: "ndarray \<Rightarrow> fl" where
  "np_mean xs = fdiv (np_sum xs) (Num (real (length xs)))"

definition np_nanmean :: "ndarray \<Rightarrow> fl" where
  "np_nanmean xs = np_mean (filter (\<lambda>v. \<not> isnan v) xs)"

text \<open>
  \<^verbatim>\<open>np.mean(mean_fac_[inds])\<close> in the Byrd cell and \<^verbatim>\<open>np.nanmean(mean_fac_[inds])\<close> in the
  Larsen C cell: the mean of one time slice of the field over the cells of the box.
\<close>

definition spatial_mean_byrd :: "ndarray \<Rightarrow> nat list \<Rightarrow> error + fl" where
  "spatial_mean_byrd mean_fac_t inds =
     and_then (take_inds mean_fac_t inds) (\<lambda>sel. Inr (np_mean sel))"

definition spatial_mean_larsen :: "ndarray \<Rightarrow> nat list \<Rightarrow> error + fl" where
  "spatial_mean_larsen mean_fac_t inds =
     and_then (take_inds mean_fac_t inds) (\<lambda>sel. Inr (np_nanmean sel))"

fun for_each :: "('a \<Rightarrow> error + 'b) \<Rightarrow> 'a list \<Rightarrow> error + 'b list" where
  "for_each f [] = Inr []"
| "for_each f (a # as) =
     and_then (f a) (\<lambda>b. and_then (for_each f as) (\<lambda>bs. Inr (b # bs)))"

text \<open>The loops over the time slices of \<^verbatim>\<open>FirnAir\<close>.\<close>

definition mean_fac_byrd_series :: "(fl \<times> fl) list \<Rightarrow> ndarray list \<Rightarrow> error + ndarray" where
  "mean_fac_byrd_series lonlat_fac FirnAir =
     (let inds = np_where (in_box 148 162 (- 81) (- 79)) lonlat_fac in
      for_each (\<lambda>mean_fac_t. spatial_mean_byrd mean_fac_t inds) FirnAir)"

definition mean_fac_larsen_series :: "(fl \<times> fl) list \<Rightarrow> ndarray list \<Rightarrow> error + ndarray" where
  "mean_fac_larsen_series lonlat_fac FirnAir =
     (let inds = np_where (in_box (- 64) (- 62) (- 68) (- 66)) lonlat_fac in
      for_each (\<lambda>mean_fac_t. spatial_mean_larsen mean_fac_t inds) FirnAir)"

text \<open>
  \<^verbatim>\<open>smb_to_surface_height = (rho_ice/rho_snow) - (rho_ocean-rho_ice)/rho_ice\<close> and the
  loop \<^verbatim>\<open>mean_smb[i] = smb_to_surface_height*np.mean(mean_smb_[inds])\<close>, which both
  cells run with \<^verbatim>\<open>np.mean\<close>.
\<close>

definition smb_to_surface_height :: "fl \<Rightarrow> fl \<Rightarrow> fl \<Rightarrow> error + fl" where
  "smb_to_surface_height rho_ice rho_ocean rho_snow =
     and_then (py_truediv rho_ice rho_snow) (\<lambda>a.
     and_then (py_truediv (fsub rho_ocean rho_ice) rho_ice) (\<lambda>b.
     Inr (fsub a b)))"

definition mean_smb_series :: "fl \<Rightarrow> nat list \<Rightarrow> ndarray list \<Rightarrow> error + ndarray" where
  "mean_smb_series factor inds SMB =
     for_each (\<lambda>mean_smb_t. and_then (take_inds mean_smb_t inds) (\<lambda>sel.
       Inr (fmul factor (np_mean sel)))) SMB"

subsection \<open>Cumulative trapezoidal integration\<close>

text \<open>
  \<^verbatim>\<open>cumtrapz(y, x=x)\<close> of \<^verbatim>\<open>scipy.integrate\<close>, with \<^verbatim>\<open>initial=None\<close>:
  \<^verbatim>\<open>d = np.diff(x)\<close>; a \<^verbatim>\<open>ValueError\<close> unless \<^verbatim>\<open>d\<close> has one element fewer than \<^verbatim>\<open>y\<close>;
  then \<^verbatim>\<open>np.cumsum(d * (y[1:] + y[:-1]) / 2.0)\<close>.
\<close>

fun np_diff :: "ndarray \<Rightarrow> ndarray" where
  "np_diff (a # b # xs) = fsub b a # np_diff (b # xs)"
| "np_diff [a] = []"
| "np_diff [] = []"

fun cumsum_from :: "fl \<Rightarrow> ndarray \<Rightarrow> ndarray" where
  "cumsum_from acc [] = []"
| "cumsum_from acc (a # xs) = fadd acc a # cumsum_from (fadd acc a) xs"

definition np_cumsum :: "ndarray \<Rightarrow> ndarray" where
  "np_cumsum xs = (case xs of [] \<Rightarrow> [] | a # r \<Rightarrow> a # cumsum_from a r)"

definition cumtrapz :: "ndarray \<Rightarrow> ndarray \<Rightarrow> error + ndarray" where
  "cumtrapz y x =
     (let d = np_diff x in
      if int (length d) \<noteq> int (length y) - 1 then Inl ValueError
      else
        and_then (np_broadcast2 fadd (tl y) (butlast y)) (\<lambda>s.
        and_then (np_broadcast2 fmul d s) (\<lambda>p.
        Inr (np_cumsum (map (\<lambda>v. fdiv v (Num 2)) p)))))"

text \<open>
  \<^verbatim>\<open>mean_smb = mean_smb - np.mean(mean_smb)\<close>, then
  \<^verbatim>\<open>mean_smb = cumtrapz(mean_smb, x=time_smb)\<close>. The Larsen C cell removes
  \<^verbatim>\<open>np.nanmean(mean_smb)\<close> instead.
\<close>

definition remove_mean :: "(ndarray \<Rightarrow> fl) \<Rightarrow> ndarray \<Rightarrow> ndarray" where
  "remove_mean mean_fn mean_smb = map (\<lambda>v. fsub v (mean_fn mean_smb)) mean_smb"

definition cumulative_integrate_byrd :: "ndarray \<Rightarrow> ndarray \<Rightarrow> error + ndarray" where
  "cumulative_integrate_byrd mean_smb time_smb =
     cumtrapz (remove_mean np_mean mean_smb) time_smb"

definition cumulative_integrate_larsen :: "ndarray \<Rightarrow> ndarray \<Rightarrow> error + ndarray" where
  "cumulative_integrate_larsen mean_smb time_smb =
     cumtrapz (remove_mean np_nanmean mean_smb) time_smb"

subsection \<open>The convex hull, as a reference\<close>



subsection \<open>The trapezoidal rule, as a reference\<close>

text \<open>
  On real numbers, and written from the textbook, not from the code: the mean of a
  series, the anomalies (the series minus its mean), the area of the \<open>i\<close>-th trapezoid
  under samples \<open>a\<close> at the times \<open>t\<close>, and for every \<open>k\<close> the sum of the areas up
  to the \<open>k\<close>-th. The code is compared with these below.
\<close>

definition mean_ref :: "real list \<Rightarrow> real" where
  "mean_ref ys = sum_list ys / real (length ys)"

definition anomaly_ref :: "real list \<Rightarrow> real list" where
  "anomaly_ref ys = map (\<lambda>y. y - mean_ref ys) ys"

definition trapezoid_ref :: "real list \<Rightarrow> real list \<Rightarrow> nat \<Rightarrow> real" where
  "trapezoid_ref a t i = (t ! Suc i - t ! i) * (a ! Suc i + a ! i) / 2"

definition cumulative_ref :: "real list \<Rightarrow> real list \<Rightarrow> real list" where
  "cumulative_ref ys ts =
     map (\<lambda>k. \<Sum>i\<le>k. trapezoid_ref (anomaly_ref ys) ts i) [0..<length ys - 1]"

text \<open>The same areas and sums on float values, where not-a-number propagates.\<close>

definition trapezoid :: "ndarray \<Rightarrow> ndarray \<Rightarrow> nat \<Rightarrow> fl" where
  "trapezoid y x k = fdiv (fmul (fsub (x ! Suc k) (x ! k)) (fadd (y ! Suc k) (y ! k))) (Num 2)"

fun trapezoid_sum :: "ndarray \<Rightarrow> ndarray \<Rightarrow> nat \<Rightarrow> fl" where
  "trapezoid_sum y x 0 = trapezoid y x 0"
| "trapezoid_sum y x (Suc k) = fadd (trapezoid_sum y x k) (trapezoid y x (Suc k))"

section \<open>Properties\<close>

subsection \<open>Helper facts\<close>

lemma fsub_Num: "fsub (Num a) (Num b) = Num (a - b)"
  by (simp add: fsub_def)

lemma fmul_Num: "fmul (Num a) (Num b) = Num (a * b)"
  by (simp add: fmul_def)

lemma hydrostatic_factor_917_1028:
  "hydrostatic_factor (Num 917) (Num 1028) = Inr (Num (942676 / 111))"
  by (simp add: hydrostatic_factor_def and_then_def fsub_Num power_int_minus)

lemma thickness_example:
  "thickness (Num 917) (Num 1028) [Num 100] [(''FAC_interp'', [Num 5])]
     = Inr [Num (97660 / 111)]"
  by (simp add: thickness_def and_then_def hydrostatic_factor_917_1028 getitem_def
      np_broadcast2_def fsub_Num fmul_Num)

subsection \<open>C1: the thickness example\<close>

text \<open>
  C1, as stated: with \<open>rho_ice = 917\<close>, \<open>rho_ocean = 1028\<close>, \<open>h_msl = 100\<close> and
  \<open>firn_air_content = 5\<close> the thickness is approximately 87.9 m. The code computes
  \<open>97660/111\<close>, which is about 879.8 m: ten times the stated figure. The statement
  fails even with a tolerance of a whole metre.
\<close>

theorem C1_thickness_not_87_9:
  "thickness (Num 917) (Num 1028) [Num 100] [(''FAC_interp'', [Num 5])] = Inr [Num (97660 / 111)]
   \<and> \<not> \<bar>97660 / 111 - (87.9 :: real)\<bar> \<le> 1"
  by (simp add: thickness_example)

text \<open>
  C1, amended: for that configuration the thickness computation yields exactly
  \<open>97660/111\<close> metres, which is 879.8 m to one decimal place.
\<close>

theorem C1_thickness_879_8:
  "thickness (Num 917) (Num 1028) [Num 100] [(''FAC_interp'', [Num 5])] = Inr [Num (97660 / 111)]
   \<and> \<bar>97660 / 111 - (879.8 :: real)\<bar> < 0.05"
  by (simp add: thickness_example)

subsection \<open>C2: height above mean sea level\<close>

lemma getitem_Some: "map_of d k = Some v \<Longrightarrow> getitem d k = Inr v"
  by (simp add: getitem_def)

lemma np_broadcast2_same:
  "length xs = length ys \<Longrightarrow> np_broadcast2 f xs ys = Inr (map2 f xs ys)"
  by (simp add: np_broadcast2_def)

lemma h_MSL_value:
  assumes "map_of Di ''h_li'' = Some h_li" "map_of Di ''geoid_h'' = Some geoid_h"
    "length geoid_h = length h_li"
  shows "h_MSL MDT_corr Di = Inr (map2 fsub (map (\<lambda>h. fsub h MDT_corr) h_li) geoid_h)"
  using assms by (simp add: h_MSL_def and_then_def getitem_Some np_broadcast2_same)

lemma h_MSL_frame:
  assumes "k \<noteq> ''h_li''" "k \<noteq> ''geoid_h''"
  shows "h_MSL MDT_corr (setitem Di k v) = h_MSL MDT_corr Di"
  using assms by (simp add: h_MSL_def getitem_def setitem_def update_conv')

text \<open>
  C2: for a record whose \<open>h_li\<close> and \<open>geoid_h\<close> columns have one length, the height above
  mean sea level is computed for every sample \<open>i\<close> as
  \<open>h_li[i] - MDT_corr - geoid_h[i]\<close>, with the one scalar \<open>MDT_corr\<close> for all samples and
  the geoid height of the sample. No other field of the record enters: setting any
  other key of the record, the tide corrections among them, leaves the result as it is.
\<close>

theorem C2_h_MSL:
  assumes "map_of Di ''h_li'' = Some h_li" "map_of Di ''geoid_h'' = Some geoid_h"
    "length geoid_h = length h_li"
  shows "\<exists>r. h_MSL MDT_corr Di = Inr r \<and> length r = length h_li \<and>
     (\<forall>i<length h_li. r ! i = fsub (fsub (h_li ! i) MDT_corr) (geoid_h ! i)) \<and>
     (\<forall>i<length h_li. \<forall>a m g. h_li ! i = Num a \<and> MDT_corr = Num m \<and> geoid_h ! i = Num g
         \<longrightarrow> r ! i = Num (a - m - g)) \<and>
     (\<forall>k v. k \<noteq> ''h_li'' \<and> k \<noteq> ''geoid_h''
         \<longrightarrow> h_MSL MDT_corr (setitem Di k v) = h_MSL MDT_corr Di)"
  using assms by (simp add: h_MSL_value h_MSL_frame fsub_Num)

theorem C2_h_MSL_witness:
  "\<exists>r. h_MSL (Num (- 1.4))
          [(''h_li'', [Num 10, NaN]), (''tide_ocean'', [Num 1, Num 1]),
           (''geoid_h'', [Num 3, Num 4])] = Inr r
      \<and> length r = 2 \<and> r ! 0 = Num 8.4 \<and> r ! 1 = NaN
      \<and> h_MSL (Num (- 1.4))
          (setitem [(''h_li'', [Num 10, NaN]), (''tide_ocean'', [Num 1, Num 1]),
                    (''geoid_h'', [Num 3, Num 4])] ''tide_ocean'' [Num 7, Num 7]) = Inr r"
proof -
  let ?Di = "[(''h_li'', [Num 10, NaN]), (''tide_ocean'', [Num 1, Num 1]),
              (''geoid_h'', [Num 3, Num 4])]"
  have h1: "map_of ?Di ''h_li'' = Some [Num 10, NaN]" by simp
  have h2: "map_of ?Di ''geoid_h'' = Some [Num 3, Num 4]" by simp
  have h3: "length [Num 3, Num 4] = length [Num 10, NaN]" by simp
  from C2_h_MSL [OF h1 h2 h3, of "Num (- 1.4)"] obtain r where
    r: "h_MSL (Num (- 1.4)) ?Di = Inr r" "length r = 2"
    and pt: "\<forall>i<2. r ! i = fsub (fsub ([Num 10, NaN] ! i) (Num (- 1.4))) ([Num 3, Num 4] ! i)"
    and fr: "\<forall>k v. k \<noteq> ''h_li'' \<and> k \<noteq> ''geoid_h''
               \<longrightarrow> h_MSL (Num (- 1.4)) (setitem ?Di k v) = h_MSL (Num (- 1.4)) ?Di"
    by auto
  from pt have "r ! 0 = Num 8.4" "r ! 1 = NaN"
    by (simp_all add: fsub_def)
  moreover from fr r have
    "h_MSL (Num (- 1.4)) (setitem ?Di ''tide_ocean'' [Num 7, Num 7]) = Inr r"
    by simp
  ultimately show ?thesis using r by blast
qed

subsection \<open>C3: a missing input gives a missing thickness, sample by sample\<close>

lemma fmul_NaN: "fmul c NaN = NaN"
  by (cases c) (simp_all add: fmul_def)

lemma fsub_NaN_left: "fsub NaN b = NaN"
  by (simp add: fsub_def)

lemma fsub_NaN_right: "fsub a NaN = NaN"
  by (cases a) (simp_all add: fsub_def)

lemma thickness_record_value:
  assumes "map_of Di ''h_li'' = Some h_li" "map_of Di ''geoid_h'' = Some geoid_h"
    "map_of Di ''FAC_interp'' = Some fac"
    "length geoid_h = length h_li" "length fac = length h_li"
    "hydrostatic_factor rho_ice rho_ocean = Inr c"
  shows "thickness_record MDT_corr rho_ice rho_ocean Di =
     Inr (map (\<lambda>v. fmul c (fdiv v rho_ice))
       (map2 fsub (map2 fsub (map (\<lambda>h. fsub h MDT_corr) h_li) geoid_h) fac))"
  using assms
  by (simp add: thickness_record_def thickness_def h_MSL_value and_then_def getitem_Some
      np_broadcast2_same)

lemma hydrostatic_factor_nonzero:
  "hydrostatic_factor (Num r) rho_ocean = Inr c \<Longrightarrow> r \<noteq> 0"
  by (auto simp: hydrostatic_factor_def and_then_def)

text \<open>
  C3: take a record whose \<open>h_li\<close>, \<open>geoid_h\<close> and \<open>FAC_interp\<close> columns have one length,
  and densities for which the hydrostatic factor is computed. Then the thickness of
  the record is computed, with one value per sample, whatever the columns hold. At
  every sample where \<open>h_li\<close>, \<open>MDT_corr\<close>, \<open>geoid_h\<close> or the interpolated firn air
  content is not-a-number, the thickness is not-a-number; every sample is the formula
  applied to that sample's inputs alone, and is a number when they are numbers.
\<close>

theorem C3_missing_propagates:
  assumes "map_of Di ''h_li'' = Some h_li" "map_of Di ''geoid_h'' = Some geoid_h"
    "map_of Di ''FAC_interp'' = Some fac"
    "length geoid_h = length h_li" "length fac = length h_li"
    "hydrostatic_factor rho_ice rho_ocean = Inr c"
  shows "\<exists>t. thickness_record MDT_corr rho_ice rho_ocean Di = Inr t \<and> length t = length h_li \<and>
     (\<forall>i<length h_li.
        (h_li ! i = NaN \<or> MDT_corr = NaN \<or> geoid_h ! i = NaN \<or> fac ! i = NaN \<longrightarrow> t ! i = NaN) \<and>
        t ! i = fmul c (fdiv (fsub (fsub (fsub (h_li ! i) MDT_corr) (geoid_h ! i)) (fac ! i)) rho_ice) \<and>
        (\<forall>a m g f r w. h_li ! i = Num a \<and> MDT_corr = Num m \<and> geoid_h ! i = Num g \<and>
            fac ! i = Num f \<and> rho_ice = Num r \<and> c = Num w
          \<longrightarrow> t ! i = Num (w * ((a - m - g - f) / r))))"
  using assms
  by (auto simp: thickness_record_value fmul_NaN fsub_NaN_left fsub_NaN_right fsub_Num fmul_Num
      dest: hydrostatic_factor_nonzero)

theorem C3_missing_propagates_witness:
  "\<exists>t. thickness_record (Num (- 1.4)) (Num 917) (Num 1028)
          [(''h_li'', [Num 98.6, NaN, Num 98.6]), (''geoid_h'', [Num 0, Num 0, Num 0]),
           (''FAC_interp'', [Num 5, Num 5, NaN])] = Inr t
      \<and> length t = 3 \<and> t ! 0 = Num (97660 / 111) \<and> t ! 1 = NaN \<and> t ! 2 = NaN"
proof -
  let ?Di = "[(''h_li'', [Num 98.6, NaN, Num 98.6]), (''geoid_h'', [Num 0, Num 0, Num 0]),
              (''FAC_interp'', [Num 5, Num 5, NaN])]"
  have h1: "map_of ?Di ''h_li'' = Some [Num 98.6, NaN, Num 98.6]" by simp
  have h2: "map_of ?Di ''geoid_h'' = Some [Num 0, Num 0, Num 0]" by simp
  have h3: "map_of ?Di ''FAC_interp'' = Some [Num 5, Num 5, NaN]" by simp
  have h4: "length [Num 0, Num 0, Num 0] = length [Num 98.6, NaN, Num 98.6]" by simp
  have h5: "length [Num 5, Num 5, NaN] = length [Num 98.6, NaN, Num 98.6]" by simp
  note h6 = hydrostatic_factor_917_1028
  from C3_missing_propagates [OF h1 h2 h3 h4 h5 h6, of "Num (- 1.4)"] obtain t where
    t: "thickness_record (Num (- 1.4)) (Num 917) (Num 1028) ?Di = Inr t" "length t = 3"
    and pt: "\<forall>i<3. t ! i = fmul (Num (942676 / 111))
        (fdiv (fsub (fsub (fsub ([Num 98.6, NaN, Num 98.6] ! i) (Num (- 1.4)))
           ([Num 0, Num 0, Num 0] ! i)) ([Num 5, Num 5, NaN] ! i)) (Num 917))"
    by auto
  from pt have "t ! 0 = Num (97660 / 111)" "t ! 1 = NaN" "t ! 2 = NaN"
    by (simp_all add: fsub_def fmul_def)
  with t show ?thesis by blast
qed

subsection \<open>C4: equal densities\<close>

lemma hydrostatic_factor_equal:
  "feq rho_ice rho_ocean \<Longrightarrow> hydrostatic_factor rho_ice rho_ocean = Inl ZeroDivisionError"
  by (cases rho_ice; cases rho_ocean)
    (auto simp: hydrostatic_factor_def and_then_def fsub_Num)

text \<open>
  C4, as stated: the computation guards the division, so that a configuration with
  \<open>rho_ice\<close> equal to \<open>rho_ocean\<close> makes the pipeline fail, with a configuration error.
  It fails on the densities \<open>917\<close> and \<open>917\<close>: nothing compares the densities, so the
  loop over no record ends without an error; and a record without \<open>geoid_h\<close> fails
  with \<open>KeyError\<close>, at the height above mean sea level, before the densities are used.
\<close>

theorem C4_loop_without_records_runs:
  "feq (Num 917) (Num 917) \<and>
   thickness_loop (Num (- 1.4)) (Num 917) (Num 917) [] = Inr [] \<and>
   thickness_record (Num (- 1.4)) (Num 917) (Num 917)
     [(''h_li'', [Num 100]), (''FAC_interp'', [Num 5])] = Inl KeyError"
  by (simp add: thickness_record_def h_MSL_def and_then_def getitem_def)

text \<open>
  C4, amended: there is no guard and no configuration error. When \<open>rho_ice == rho_ocean\<close>
  holds, the left factor of the thickness formula is never computed: Python raises
  \<open>ZeroDivisionError\<close>, at \<open>1/rho_ice\<close> when the density is zero and at the power
  \<open>**(-1)\<close> of the zero difference otherwise. So the thickness statement raises that
  error for any heights, and no thickness array, hence no infinity, is produced. The
  loop body, and the loop at its first record, raise it once the height above mean sea
  level of the record is computed, and the error of that height otherwise. The loop
  over no record returns without an error.
\<close>

theorem C4_equal_densities_raise:
  assumes "feq rho_ice rho_ocean"
  shows "hydrostatic_factor rho_ice rho_ocean = Inl ZeroDivisionError \<and>
     thickness rho_ice rho_ocean h_msl Di = Inl ZeroDivisionError \<and>
     thickness_record MDT_corr rho_ice rho_ocean Di =
       (case h_MSL MDT_corr Di of Inl e \<Rightarrow> Inl e | Inr h \<Rightarrow> Inl ZeroDivisionError) \<and>
     thickness_loop MDT_corr rho_ice rho_ocean (Di # D6) =
       (case h_MSL MDT_corr Di of Inl e \<Rightarrow> Inl e | Inr h \<Rightarrow> Inl ZeroDivisionError) \<and>
     thickness_loop MDT_corr rho_ice rho_ocean [] = Inr []"
  using hydrostatic_factor_equal [OF assms]
  by (simp add: thickness_def thickness_record_def and_then_def split: sum.splits)

theorem C4_equal_densities_raise_witness:
  "feq (Num 917) (Num 917) \<and>
   thickness (Num 917) (Num 917) [Num 100] [(''FAC_interp'', [Num 5])] = Inl ZeroDivisionError \<and>
   thickness_loop (Num (- 1.4)) (Num 917) (Num 917)
     [[(''h_li'', [Num 100]), (''geoid_h'', [Num 0]), (''FAC_interp'', [Num 5])]]
     = Inl ZeroDivisionError"
proof -
  have h: "feq (Num 917) (Num 917)" by simp
  let ?Di = "[(''h_li'', [Num 100]), (''geoid_h'', [Num 0]), (''FAC_interp'', [Num 5])]"
  have m: "h_MSL (Num (- 1.4)) ?Di = Inr [Num 101.4]"
    by (simp add: h_MSL_def and_then_def getitem_def np_broadcast2_def fsub_Num)
  from C4_equal_densities_raise [OF h, of "[Num 100]" "[(''FAC_interp'', [Num 5])]" "Num (- 1.4)" "[]"]
  have "thickness (Num 917) (Num 917) [Num 100] [(''FAC_interp'', [Num 5])] = Inl ZeroDivisionError"
    by blast
  moreover from C4_equal_densities_raise [OF h, of "[]" ?Di "Num (- 1.4)" "[]"]
  have "thickness_loop (Num (- 1.4)) (Num 917) (Num 917) [?Di] =
       (case h_MSL (Num (- 1.4)) ?Di of Inl e \<Rightarrow> Inl e | Inr h \<Rightarrow> Inl ZeroDivisionError)"
    by blast
  with m have "thickness_loop (Num (- 1.4)) (Num 917) (Num 917) [?Di] = Inl ZeroDivisionError"
    by (simp only: sum.case)
  moreover note h
  ultimately show ?thesis by blast
qed

subsection \<open>C9: fill values become not-a-number\<close>

lemma setitem_mask_map:
  "setitem_mask arr (map P arr) v = Inr (map (\<lambda>a. if P a then v else a) arr)"
  by (induction arr) (simp_all add: and_then_def)

lemma fill_to_nan_FloatArr:
  "fill_to_nan (FloatArr arr) fill_value =
     Inr (FloatArr (map (\<lambda>a. if feq a fill_value then NaN else a) arr))"
  by (simp add: np_eq_def setitem_mask_map and_then_def)

text \<open>
  C9, as stated: for every numeric array, the elements equal to the fill value become
  the missing marker and the others are returned unchanged. It fails on an array of
  integers: the assignment of \<open>np.NaN\<close> raises \<open>ValueError\<close>, whether an element
  equals the fill value or not, and nothing is returned.
\<close>

theorem C9_integer_array_raises:
  "fill_to_nan (IntArr [1, - 9999, 3]) (Num (- 9999)) = Inl ValueError \<and>
   fill_to_nan (IntArr [1, 2, 3]) (Num (- 9999)) = Inl ValueError"
  by simp

text \<open>
  C9, amended: on an array of floats the assignment succeeds; the result has the length
  of the array, holds not-a-number exactly where the element equals the fill value
  (IEEE equality: not-a-number equals nothing), and the element itself everywhere
  else. On an array of integers it raises \<open>ValueError\<close>.
\<close>

theorem C9_normalize:
  "(\<exists>r. fill_to_nan (FloatArr arr) fill_value = Inr (FloatArr r) \<and> length r = length arr \<and>
     (\<forall>i<length arr.
        (feq (arr ! i) fill_value \<longrightarrow> r ! i = NaN) \<and>
        (\<not> feq (arr ! i) fill_value \<longrightarrow> r ! i = arr ! i))) \<and>
   fill_to_nan (IntArr ns) fill_value = Inl ValueError"
  by (simp add: fill_to_nan_FloatArr del: fill_to_nan.simps(1))

theorem C9_normalize_witness:
  "fill_to_nan (FloatArr [Num 1, Num (- 9999), Num 3]) (Num (- 9999)) = Inr (FloatArr [Num 1, NaN, Num 3])"
proof -
  from C9_normalize [of "[Num 1, Num (- 9999), Num 3]" "Num (- 9999)"] obtain r where
    r: "fill_to_nan (FloatArr [Num 1, Num (- 9999), Num 3]) (Num (- 9999)) = Inr (FloatArr r)"
      "length r = 3"
    and pt: "\<forall>i<3. (feq ([Num 1, Num (- 9999), Num 3] ! i) (Num (- 9999)) \<longrightarrow> r ! i = NaN) \<and>
        (\<not> feq ([Num 1, Num (- 9999), Num 3] ! i) (Num (- 9999))
           \<longrightarrow> r ! i = [Num 1, Num (- 9999), Num 3] ! i)"
    by auto
  from pt have "r ! 0 = Num 1" "r ! 1 = NaN" "r ! 2 = Num 3"
    by simp_all
  with r(2) have "r = [Num 1, NaN, Num 3]"
    by (simp add: list_eq_iff_nth_eq less_Suc_eq numeral_3_eq_3 numeral_2_eq_2)
  with r show ?thesis by simp
qed

subsection \<open>C5: a dataset that is absent from the file\<close>

lemma fill_to_nan_errors: "fill_to_nan d fv = Inl e \<Longrightarrow> e = ValueError"
  by (cases d) (simp_all add: fill_to_nan_FloatArr del: fill_to_nan.simps(1))

lemma read_dataset_absent: "h5f p = None \<Longrightarrow> read_dataset h5f p = Inl KeyError"
  by (simp add: read_dataset_def)

lemma read_dataset_errors:
  "read_dataset h5f p = Inl e \<Longrightarrow> (e = KeyError \<and> h5f p = None) \<or> (e = ValueError \<and> h5f p \<noteq> None)"
  by (auto simp: read_dataset_def and_then_def split: option.splits sum.splits
      dest: fill_to_nan_errors)

lemma read_dataset_KeyError: "read_dataset h5f p = Inl KeyError \<Longrightarrow> h5f p = None"
  by (drule read_dataset_errors) simp

lemma read_dataset_ok: "read_dataset h5f p = Inr arr \<Longrightarrow> h5f p \<noteq> None"
  by (auto simp: read_dataset_def split: option.splits)

lemma map_of_setitem: "map_of (setitem d k v) = (map_of d)(k \<mapsto> v)"
  by (simp add: setitem_def update_conv')

lemma read_fields_no_KeyError:
  "read_fields h5f pair beam grp names temp \<noteq> Inl KeyError"
  by (induction names arbitrary: temp) (simp_all split: sum.splits)

lemma read_fields_result:
  assumes "read_fields h5f pair beam grp names temp = Inr temp'"
  shows "(\<forall>n\<in>set names. read_dataset h5f (DS_path pair beam grp n) \<noteq> Inl ValueError) \<and>
     (\<forall>k. map_of temp' k =
        (if k \<in> set names
         then (case read_dataset h5f (DS_path pair beam grp k) of
                 Inl e \<Rightarrow> map_of temp k | Inr arr \<Rightarrow> Some arr)
         else map_of temp k))"
  using assms
proof (induction names arbitrary: temp)
  case Nil
  then show ?case by simp
next
  case (Cons n names)
  show ?case
  proof (cases "read_dataset h5f (DS_path pair beam grp n)")
    case (Inl e)
    with Cons.prems have e: "e = KeyError"
      and r: "read_fields h5f pair beam grp names temp = Inr temp'"
      by (simp_all split: if_splits)
    from Cons.IH [OF r] Inl e show ?thesis by auto
  next
    case (Inr arr)
    with Cons.prems have r: "read_fields h5f pair beam grp names (setitem temp n arr) = Inr temp'"
      by simp
    from Cons.IH [OF r] Inr show ?thesis
      by (auto simp: map_of_setitem split: sum.splits)
  qed
qed

lemma read_fields_total:
  assumes "\<forall>n\<in>set names. read_dataset h5f (DS_path pair beam grp n) \<noteq> Inl ValueError"
  shows "\<exists>temp'. read_fields h5f pair beam grp names temp = Inr temp'"
  using assms
proof (induction names arbitrary: temp)
  case Nil
  then show ?case by simp
next
  case (Cons n names)
  show ?case
  proof (cases "read_dataset h5f (DS_path pair beam grp n)")
    case (Inl e)
    with Cons.prems read_dataset_errors [OF Inl] have "e = KeyError" by auto
    with Inl Cons show ?thesis by simp
  next
    case (Inr arr)
    with Cons show ?thesis by simp
  qed
qed

lemma read_fields_absent:
  "\<forall>n\<in>set names. h5f (DS_path pair beam grp n) = None \<Longrightarrow>
   read_fields h5f pair beam grp names temp = Inr temp"
  by (induction names arbitrary: temp) (simp_all add: read_dataset_def)

lemma read_groups_no_KeyError:
  "read_groups h5f pair beam gs temp \<noteq> Inl KeyError"
proof (induction gs arbitrary: temp)
  case Nil
  then show ?case by simp
next
  case (Cons gn gs)
  obtain grp names where gn: "gn = (grp, names)" by (cases gn)
  show ?case
    using Cons read_fields_no_KeyError [of h5f pair beam grp names temp]
    by (auto simp: gn and_then_def split: sum.splits)
qed

lemma read_fields_errors:
  "read_fields h5f pair beam grp names temp = Inl e \<Longrightarrow> e = ValueError"
proof (induction names arbitrary: temp)
  case Nil
  then show ?case by simp
next
  case (Cons n names)
  show ?case
  proof (cases "read_dataset h5f (DS_path pair beam grp n)")
    case (Inl e')
    from read_dataset_errors [OF Inl] have "e' = KeyError \<or> e' = ValueError" by blast
    with Inl Cons show ?thesis by (auto split: if_splits)
  next
    case (Inr arr)
    with Cons show ?thesis by simp
  qed
qed

lemma read_groups_errors:
  "read_groups h5f pair beam gs temp = Inl e \<Longrightarrow> e = ValueError"
proof (induction gs arbitrary: temp)
  case Nil
  then show ?case by simp
next
  case (Cons gn gs)
  obtain grp names where gn: "gn = (grp, names)" by (cases gn)
  show ?case
  proof (cases "read_fields h5f pair beam grp names temp")
    case (Inl e')
    with Cons.prems gn have "e' = e" by (simp add: and_then_def)
    with Inl show ?thesis by (auto dest: read_fields_errors)
  next
    case (Inr t)
    with Cons gn show ?thesis by (simp add: and_then_def)
  qed
qed

lemma read_groups_absent:
  "\<forall>gn\<in>set gs. \<forall>name\<in>set (snd gn). h5f (DS_path pair beam (fst gn) name) = None \<Longrightarrow>
   read_groups h5f pair beam gs temp = Inr temp"
proof (induction gs arbitrary: temp)
  case Nil
  then show ?case by simp
next
  case (Cons gn gs)
  obtain grp names where gn: "gn = (grp, names)" by (cases gn)
  from Cons.prems gn have "\<forall>n\<in>set names. h5f (DS_path pair beam grp n) = None"
    by simp
  then have "read_fields h5f pair beam grp names temp = Inr temp"
    by (rule read_fields_absent)
  moreover from Cons have "read_groups h5f pair beam gs temp = Inr temp"
    by simp
  ultimately show ?case by (simp add: gn and_then_def)
qed

lemma read_groups_total:
  assumes "\<forall>gn\<in>set gs. \<forall>name\<in>set (snd gn).
      read_dataset h5f (DS_path pair beam (fst gn) name) \<noteq> Inl ValueError"
  shows "\<exists>temp'. read_groups h5f pair beam gs temp = Inr temp'"
  using assms
proof (induction gs arbitrary: temp)
  case Nil
  then show ?case by simp
next
  case (Cons gn gs)
  obtain grp names where gn: "gn = (grp, names)" by (cases gn)
  from Cons.prems gn
  have "\<forall>n\<in>set names. read_dataset h5f (DS_path pair beam grp n) \<noteq> Inl ValueError"
    by simp
  from read_fields_total [OF this] obtain t1 where
    "read_fields h5f pair beam grp names temp = Inr t1" by blast
  moreover from Cons obtain t2 where "read_groups h5f pair beam gs t1 = Inr t2"
    by fastforce
  ultimately show ?case by (simp add: gn and_then_def)
qed

lemma read_groups_result:
  assumes "distinct (concat (map snd gs))"
    and "read_groups h5f pair beam gs temp = Inr temp'"
  shows "(\<forall>gn\<in>set gs. \<forall>name\<in>set (snd gn).
        read_dataset h5f (DS_path pair beam (fst gn) name) \<noteq> Inl ValueError) \<and>
     (\<forall>k. k \<notin> set (concat (map snd gs)) \<longrightarrow> map_of temp' k = map_of temp k) \<and>
     (\<forall>gn\<in>set gs. \<forall>name\<in>set (snd gn).
        map_of temp' name =
          (case read_dataset h5f (DS_path pair beam (fst gn) name) of
             Inl e \<Rightarrow> map_of temp name | Inr arr \<Rightarrow> Some arr))"
  using assms
proof (induction gs arbitrary: temp)
  case Nil
  then show ?case by simp
next
  case (Cons gn gs)
  obtain grp names where gn: "gn = (grp, names)" by (cases gn)
  from Cons.prems gn have d: "distinct (concat (map snd gs))"
    and disj: "set names \<inter> set (concat (map snd gs)) = {}"
    by simp_all
  from Cons.prems(2) gn obtain t1 where
    t1: "read_fields h5f pair beam grp names temp = Inr t1"
    and t2: "read_groups h5f pair beam gs t1 = Inr temp'"
    by (auto simp: and_then_def split: sum.splits)
  from read_fields_result [OF t1] have
    v1: "\<forall>n\<in>set names. read_dataset h5f (DS_path pair beam grp n) \<noteq> Inl ValueError"
    and m1: "\<And>k. map_of t1 k = (if k \<in> set names
         then (case read_dataset h5f (DS_path pair beam grp k) of
                 Inl e \<Rightarrow> map_of temp k | Inr arr \<Rightarrow> Some arr)
         else map_of temp k)" by blast+
  from Cons.IH [OF d t2] have
    v2: "\<forall>g\<in>set gs. \<forall>name\<in>set (snd g).
        read_dataset h5f (DS_path pair beam (fst g) name) \<noteq> Inl ValueError"
    and out: "\<And>k. k \<notin> set (concat (map snd gs)) \<Longrightarrow> map_of temp' k = map_of t1 k"
    and inn: "\<And>g name. g \<in> set gs \<Longrightarrow> name \<in> set (snd g) \<Longrightarrow>
        map_of temp' name =
          (case read_dataset h5f (DS_path pair beam (fst g) name) of
             Inl e \<Rightarrow> map_of t1 name | Inr arr \<Rightarrow> Some arr)" by blast+
  have v: "\<forall>g\<in>set (gn # gs). \<forall>name\<in>set (snd g).
        read_dataset h5f (DS_path pair beam (fst g) name) \<noteq> Inl ValueError"
    using v1 v2 by (simp add: gn)
  have a: "map_of temp' k = map_of temp k" if "k \<notin> set (concat (map snd (gn # gs)))" for k
    using that out [of k] m1 [of k] by (simp add: gn)
  have b: "map_of temp' name =
          (case read_dataset h5f (DS_path pair beam (fst g) name) of
             Inl e \<Rightarrow> map_of temp name | Inr arr \<Rightarrow> Some arr)"
    if "g \<in> set (gn # gs)" "name \<in> set (snd g)" for g name
  proof (cases "g = gn")
    case True
    with that gn have n: "name \<in> set names" by simp
    with disj have "name \<notin> set (concat (map snd gs))" by blast
    then have "map_of temp' name = map_of t1 name" by (rule out)
    with n True gn show ?thesis by (simp add: m1)
  next
    case False
    with that have g: "g \<in> set gs" by simp
    with that(2) have "name \<in> set (concat (map snd gs))" by auto
    with disj have "name \<notin> set names" by blast
    then have "map_of t1 name = map_of temp name" by (simp add: m1)
    with inn [OF g that(2)] show ?thesis by (simp split: sum.splits)
  qed
  from v a b show ?case by blast
qed

lemma distinct_datasets: "distinct (concat (map snd datasets))"
  by (simp add: datasets_def)

lemma longitude_in_datasets:
  "(''land_ice_segments'', [''h_li'', ''latitude'', ''longitude'', ''atl06_quality_summary''])
     \<in> set datasets"
  by (simp add: datasets_def)

lemma str_nat_1: "str_nat 1 = ''1''"
  by (simp add: digit_def)

lemma DS_path_1r: "DS_path 1 ''r'' grp name = ''/gt1r/'' @ grp @ ''/'' @ name"
  by (simp add: DS_path_def str_nat_1 digit_def)

lemma DS_path_1r': "DS_path (Suc 0) ''r'' grp name = ''/gt1r/'' @ grp @ ''/'' @ name"
  using DS_path_1r by simp

lemma read_example:
  "read_groups file_no_geoid 1 ''r'' datasets [] =
     Inr [(''h_li'', [Num 10, NaN]), (''latitude'', [Num (- 80), Num (- 81)]),
          (''longitude'', [Num 150, Num 151]), (''atl06_quality_summary'', [Num 0, Num 0])]"
  by (simp add: datasets_def DS_path_1r' read_dataset_def file_no_geoid_def and_then_def
      fill_to_nan_FloatArr setitem_def del: fill_to_nan.simps(1))

text \<open>
  The one error of the reading loops: a dataset of integers that declares a fill value
  is present, so nothing is skipped, and the replacement of the fill value raises.
\<close>

lemma read_groups_integer_fill:
  "read_groups file_int_fill 1 ''r'' datasets [] = Inl ValueError \<and>
   extract_beam ll2ps empty_like set_nan file_int_fill 1 ''r'' = Inl ValueError"
  by (simp add: extract_beam_def datasets_def DS_path_1r' read_dataset_def file_int_fill_def
      and_then_def)

text \<open>
  C5, as stated: an absent required field is reported to the caller and never skipped.
  It fails on \<open>file_no_geoid\<close>, which has no \<open>geoid_h\<close>: the loop reads the four
  datasets that are there, and the beam is appended to \<open>D6\<close> without \<open>geoid_h\<close>
  and without an error. A file with no dataset at all gives no record and no error.
\<close>

theorem C5_absent_geoid_not_raised:
  "file_no_geoid (DS_path 1 ''r'' ''land_ice_segments/dem'' ''geoid_h'') = None \<and>
   read_groups file_no_geoid 1 ''r'' datasets [] =
     Inr [(''h_li'', [Num 10, NaN]), (''latitude'', [Num (- 80), Num (- 81)]),
          (''longitude'', [Num 150, Num 151]), (''atl06_quality_summary'', [Num 0, Num 0])] \<and>
   extract_beam (\<lambda>lon lat. Inr (lon, lat)) (\<lambda>y. y) (\<lambda>h q. Inr h) file_no_geoid 1 ''r'' =
     Inr (Some [(''h_li'', [Num 10, NaN]), (''latitude'', [Num (- 80), Num (- 81)]),
          (''longitude'', [Num 150, Num 151]), (''atl06_quality_summary'', [Num 0, Num 0]),
          (''x'', [Num 150, Num 151]), (''y'', [Num (- 80), Num (- 81)]),
          (''mask'', [Num (- 80), Num (- 81)]), (''FAC_interp'', [Num (- 80), Num (- 81)])]) \<and>
   extract_beam (\<lambda>lon lat. Inr (lon, lat)) (\<lambda>y. y) (\<lambda>h q. Inr h) Map.empty 1 ''r'' = Inr None"
  apply (intro conjI)
     apply (simp add: DS_path_1r' file_no_geoid_def)
    apply (rule read_example)
  unfolding extract_beam_def read_example
   apply (simp add: and_then_def finish_beam_def getitem_def setitem_def)
  apply (simp add: datasets_def read_dataset_def and_then_def)
  done

text \<open>
  C5, amended: a dataset that is absent from the file raises \<open>KeyError\<close> inside the
  \<open>try\<close> and is skipped by \<open>except KeyError: pass\<close>. So reading the fields of a beam
  never fails with \<open>KeyError\<close>, and when it returns, the record holds exactly the
  datasets that are present. It returns unless a dataset that is present raises
  \<open>ValueError\<close> (integers that declare a fill value), which is the only error of
  the reading. When no dataset is present, the
  beam is dropped without an error. A \<open>KeyError\<close> reaches the caller only from the
  lookups that follow: when the record is not empty and the longitude is absent.
\<close>

theorem C5_absent_fields_skipped:
  "read_groups h5f pair beam datasets [] \<noteq> Inl KeyError \<and>
   (\<forall>e. read_groups h5f pair beam datasets [] = Inl e \<longrightarrow> e = ValueError) \<and>
   (\<forall>temp. read_groups h5f pair beam datasets [] = Inr temp \<longrightarrow>
      (\<forall>gn\<in>set datasets. \<forall>name\<in>set (snd gn).
         (h5f (DS_path pair beam (fst gn) name) = None \<longrightarrow> map_of temp name = None) \<and>
         (h5f (DS_path pair beam (fst gn) name) \<noteq> None \<longrightarrow>
            (\<exists>arr. read_dataset h5f (DS_path pair beam (fst gn) name) = Inr arr \<and>
                   map_of temp name = Some arr))) \<and>
      (temp \<noteq> [] \<and> h5f (DS_path pair beam ''land_ice_segments'' ''longitude'') = None
         \<longrightarrow> extract_beam ll2ps empty_like set_nan h5f pair beam = Inl KeyError)) \<and>
   ((\<forall>gn\<in>set datasets. \<forall>name\<in>set (snd gn).
       read_dataset h5f (DS_path pair beam (fst gn) name) \<noteq> Inl ValueError)
      \<longrightarrow> (\<exists>temp. read_groups h5f pair beam datasets [] = Inr temp)) \<and>
   ((\<forall>gn\<in>set datasets. \<forall>name\<in>set (snd gn). h5f (DS_path pair beam (fst gn) name) = None)
      \<longrightarrow> extract_beam ll2ps empty_like set_nan h5f pair beam = Inr None)"
proof (intro conjI allI impI)
  show "read_groups h5f pair beam datasets [] \<noteq> Inl KeyError"
    by (rule read_groups_no_KeyError)
next
  fix e assume "read_groups h5f pair beam datasets [] = Inl e"
  then show "e = ValueError"
    by (rule read_groups_errors)
next
  fix temp
  assume r: "read_groups h5f pair beam datasets [] = Inr temp"
  from read_groups_result [OF distinct_datasets r] have
    v: "\<forall>gn\<in>set datasets. \<forall>name\<in>set (snd gn).
        read_dataset h5f (DS_path pair beam (fst gn) name) \<noteq> Inl ValueError"
    and m: "\<forall>gn\<in>set datasets. \<forall>name\<in>set (snd gn).
        map_of temp name =
          (case read_dataset h5f (DS_path pair beam (fst gn) name) of
             Inl e \<Rightarrow> map_of [] name | Inr arr \<Rightarrow> Some arr)" by blast+
  show a: "\<forall>gn\<in>set datasets. \<forall>name\<in>set (snd gn).
        (h5f (DS_path pair beam (fst gn) name) = None \<longrightarrow> map_of temp name = None) \<and>
        (h5f (DS_path pair beam (fst gn) name) \<noteq> None \<longrightarrow>
           (\<exists>arr. read_dataset h5f (DS_path pair beam (fst gn) name) = Inr arr \<and>
                  map_of temp name = Some arr))"
  proof (intro ballI conjI impI)
    fix gn name assume "gn \<in> set datasets" "name \<in> set (snd gn)"
      and "h5f (DS_path pair beam (fst gn) name) = None"
    with m show "map_of temp name = None"
      by (simp add: read_dataset_absent)
  next
    fix gn name assume gn: "gn \<in> set datasets" "name \<in> set (snd gn)"
      and p: "h5f (DS_path pair beam (fst gn) name) \<noteq> None"
    show "\<exists>arr. read_dataset h5f (DS_path pair beam (fst gn) name) = Inr arr \<and>
                  map_of temp name = Some arr"
    proof (cases "read_dataset h5f (DS_path pair beam (fst gn) name)")
      case (Inl e)
      with read_dataset_errors [OF Inl] p have "e = ValueError" by simp
      with Inl v gn show ?thesis by blast
    next
      case (Inr arr)
      with m gn show ?thesis by simp
    qed
  qed
  assume "temp \<noteq> [] \<and> h5f (DS_path pair beam ''land_ice_segments'' ''longitude'') = None"
  then have ne: "temp \<noteq> []"
    and lon: "h5f (DS_path pair beam ''land_ice_segments'' ''longitude'') = None" by simp_all
  from a longitude_in_datasets lon have "map_of temp ''longitude'' = None"
    by fastforce
  then have "finish_beam ll2ps empty_like set_nan temp = Inl KeyError"
    by (simp add: finish_beam_def getitem_def and_then_def)
  with r ne show "extract_beam ll2ps empty_like set_nan h5f pair beam = Inl KeyError"
    by (simp add: extract_beam_def and_then_def)
next
  assume "\<forall>gn\<in>set datasets. \<forall>name\<in>set (snd gn).
       read_dataset h5f (DS_path pair beam (fst gn) name) \<noteq> Inl ValueError"
  then show "\<exists>temp. read_groups h5f pair beam datasets [] = Inr temp"
    by (rule read_groups_total)
next
  assume "\<forall>gn\<in>set datasets. \<forall>name\<in>set (snd gn). h5f (DS_path pair beam (fst gn) name) = None"
  then have "read_groups h5f pair beam datasets [] = Inr []"
    by (rule read_groups_absent)
  then show "extract_beam ll2ps empty_like set_nan h5f pair beam = Inr None"
    by (simp add: extract_beam_def and_then_def)
qed

theorem C5_absent_fields_skipped_witness:
  "extract_beam (\<lambda>lon lat. Inr (lon, lat)) (\<lambda>y. y) (\<lambda>h q. Inr h) Map.empty 1 ''r'' = Inr None \<and>
   extract_beam (\<lambda>lon lat. Inr (lon, lat)) (\<lambda>y. y) (\<lambda>h q. Inr h) file_h_li_only 1 ''r''
     = Inl KeyError \<and>
   (\<exists>temp. read_groups file_h_li_only 1 ''r'' datasets [] = Inr temp \<and>
      map_of temp ''h_li'' = Some [Num 10, NaN] \<and> map_of temp ''longitude'' = None)"
proof -
  let ?ll2ps = "\<lambda>lon lat. Inr (lon, lat) :: error + ndarray \<times> ndarray"
  let ?empty = "\<lambda>y :: ndarray. y"
  let ?set = "\<lambda>(h :: ndarray) (q :: ndarray). Inr h :: error + ndarray"
  have none: "\<forall>gn\<in>set datasets. \<forall>name\<in>set (snd gn).
      (Map.empty :: h5file) (DS_path 1 ''r'' (fst gn) name) = None"
    by simp
  from C5_absent_fields_skipped [of Map.empty 1 "''r''" ?ll2ps ?empty ?set] none
  have e: "extract_beam ?ll2ps ?empty ?set Map.empty 1 ''r'' = Inr None"
    by blast
  have rd: "read_dataset file_h_li_only (DS_path 1 ''r'' (fst gn) name) \<noteq> Inl ValueError"
    for gn name
    by (auto simp: file_h_li_only_def read_dataset_def fill_to_nan_FloatArr and_then_def
        simp del: fill_to_nan.simps(1) split: option.splits)
  note t = C5_absent_fields_skipped [of file_h_li_only 1 "''r''" ?ll2ps ?empty ?set]
  from t rd obtain temp where r: "read_groups file_h_li_only 1 ''r'' datasets [] = Inr temp"
    by blast
  with t have a: "\<forall>gn\<in>set datasets. \<forall>name\<in>set (snd gn).
        (file_h_li_only (DS_path 1 ''r'' (fst gn) name) = None \<longrightarrow> map_of temp name = None) \<and>
        (file_h_li_only (DS_path 1 ''r'' (fst gn) name) \<noteq> None \<longrightarrow>
           (\<exists>arr. read_dataset file_h_li_only (DS_path 1 ''r'' (fst gn) name) = Inr arr \<and>
                  map_of temp name = Some arr))"
    and c: "temp \<noteq> [] \<and> file_h_li_only (DS_path 1 ''r'' ''land_ice_segments'' ''longitude'') = None
        \<longrightarrow> extract_beam ?ll2ps ?empty ?set file_h_li_only 1 ''r'' = Inl KeyError"
    by blast+
  have lon: "file_h_li_only (DS_path 1 ''r'' ''land_ice_segments'' ''longitude'') = None"
    by (simp add: file_h_li_only_def DS_path_1r')
  have h: "read_dataset file_h_li_only (DS_path 1 ''r'' ''land_ice_segments'' ''h_li'')
      = Inr [Num 10, NaN]"
    by (simp add: file_h_li_only_def DS_path_1r' read_dataset_def fill_to_nan_FloatArr
        and_then_def del: fill_to_nan.simps(1))
  then have h': "file_h_li_only (DS_path 1 ''r'' ''land_ice_segments'' ''h_li'') \<noteq> None"
    by (rule read_dataset_ok)
  from a longitude_in_datasets lon have m1: "map_of temp ''longitude'' = None"
    by fastforce
  from a longitude_in_datasets h h' have m2: "map_of temp ''h_li'' = Some [Num 10, NaN]"
    by fastforce
  then have "temp \<noteq> []" by auto
  with c lon have k: "extract_beam ?ll2ps ?empty ?set file_h_li_only 1 ''r'' = Inl KeyError"
    by blast
  from e k r m1 m2 show ?thesis by blast
qed

subsection \<open>C10: cumulative integration of the anomalies\<close>

lemma length_np_diff: "length (np_diff x) = length x - 1"
  by (induction x rule: np_diff.induct) simp_all

lemma np_diff_nth: "Suc k < length x \<Longrightarrow> np_diff x ! k = fsub (x ! Suc k) (x ! k)"
proof (induction x arbitrary: k rule: np_diff.induct)
  case (1 a b xs)
  then show ?case by (cases k) simp_all
qed simp_all

lemma length_cumsum_from: "length (cumsum_from acc xs) = length xs"
  by (induction xs arbitrary: acc) simp_all

lemma length_np_cumsum: "length (np_cumsum xs) = length xs"
  by (cases xs) (simp_all add: np_cumsum_def length_cumsum_from)

lemma cumsum_from_nth:
  "k < length xs \<Longrightarrow>
   cumsum_from acc xs ! k = fadd (case k of 0 \<Rightarrow> acc | Suc j \<Rightarrow> cumsum_from acc xs ! j) (xs ! k)"
proof (induction xs arbitrary: acc k)
  case Nil
  then show ?case by simp
next
  case (Cons a xs)
  show ?case
  proof (cases k)
    case 0
    then show ?thesis by simp
  next
    case (Suc j)
    with Cons.prems have "j < length xs" by simp
    from Cons.IH [OF this, of "fadd acc a"] Suc show ?thesis
      by (simp split: nat.splits)
  qed
qed

lemma np_cumsum_0: "xs \<noteq> [] \<Longrightarrow> np_cumsum xs ! 0 = xs ! 0"
  by (cases xs) (simp_all add: np_cumsum_def)

lemma np_cumsum_Suc:
  assumes "Suc k < length xs"
  shows "np_cumsum xs ! Suc k = fadd (np_cumsum xs ! k) (xs ! Suc k)"
proof (cases xs)
  case Nil
  with assms show ?thesis by simp
next
  case (Cons a r)
  with assms have "k < length r" by simp
  from cumsum_from_nth [OF this, of a] Cons show ?thesis
    by (simp add: np_cumsum_def split: nat.splits)
qed

lemma cumtrapz_value:
  assumes "length x = length y" "y \<noteq> []"
  shows "cumtrapz y x =
     Inr (np_cumsum (map (\<lambda>v. fdiv v (Num 2))
       (map2 fmul (np_diff x) (map2 fadd (tl y) (butlast y)))))"
proof -
  from assms have "int (length (np_diff x)) = int (length y) - 1"
    by (cases y) (simp_all add: length_np_diff)
  moreover have "length (tl y) = length (butlast y)" by simp
  moreover from assms have "length (np_diff x) = length (map2 fadd (tl y) (butlast y))"
    by (simp add: length_np_diff)
  ultimately show ?thesis
    by (simp add: cumtrapz_def Let_def and_then_def np_broadcast2_same)
qed

lemma increments_nth:
  assumes "length x = length y" "Suc k < length y"
  shows "map (\<lambda>v. fdiv v (Num 2)) (map2 fmul (np_diff x) (map2 fadd (tl y) (butlast y))) ! k
     = trapezoid y x k"
  using assms
  by (simp add: length_np_diff np_diff_nth nth_tl nth_butlast trapezoid_def)

lemma cumtrapz_trapezoid:
  assumes "length x = length y" "y \<noteq> []"
  shows "\<exists>r. cumtrapz y x = Inr r \<and> length r = length y - 1 \<and>
     (\<forall>k. Suc k < length y \<longrightarrow> r ! k = trapezoid_sum y x k)"
proof -
  let ?inc = "map (\<lambda>v. fdiv v (Num 2)) (map2 fmul (np_diff x) (map2 fadd (tl y) (butlast y)))"
  from assms have len: "length ?inc = length y - 1"
    by (simp add: length_np_diff)
  have "np_cumsum ?inc ! k = trapezoid_sum y x k" if "Suc k < length y" for k
    using that
  proof (induction k)
    case 0
    with len have "0 < length ?inc" by linarith
    then have "?inc \<noteq> []" by (rule length_greater_0_conv [THEN iffD1])
    then have "np_cumsum ?inc ! 0 = ?inc ! 0" by (rule np_cumsum_0)
    with increments_nth [OF assms(1) 0] show ?case by simp
  next
    case (Suc k)
    with len have "Suc k < length ?inc" by simp
    then have "np_cumsum ?inc ! Suc k = fadd (np_cumsum ?inc ! k) (?inc ! Suc k)"
      by (rule np_cumsum_Suc)
    with Suc increments_nth [OF assms(1) Suc.prems] show ?case by simp
  qed
  with len show ?thesis
    by (simp add: cumtrapz_value [OF assms] length_np_cumsum)
qed

lemma foldl_fadd_map_Num:
  "foldl fadd (Num a) (map Num ys) = Num (a + sum_list ys)"
  by (induction ys arbitrary: a) (simp_all add: fadd_def algebra_simps)

lemma np_mean_map_Num: "ys \<noteq> [] \<Longrightarrow> np_mean (map Num ys) = Num (mean_ref ys)"
  by (simp add: np_mean_def np_sum_def foldl_fadd_map_Num mean_ref_def)

lemma filter_map_Num: "filter (\<lambda>v. \<not> isnan v) (map Num ys) = map Num ys"
  by (induction ys) (simp_all add: isnan_def)

lemma np_nanmean_map_Num: "ys \<noteq> [] \<Longrightarrow> np_nanmean (map Num ys) = Num (mean_ref ys)"
  by (simp add: np_nanmean_def filter_map_Num np_mean_map_Num)

lemma remove_mean_map_Num:
  assumes "mean_fn (map Num ys) = Num (mean_ref ys)"
  shows "remove_mean mean_fn (map Num ys) = map Num (anomaly_ref ys)"
  using assms by (simp add: remove_mean_def anomaly_ref_def fsub_Num)

lemma trapezoid_map_Num:
  assumes "length t = length a" "Suc i < length a"
  shows "trapezoid (map Num a) (map Num t) i = Num (trapezoid_ref a t i)"
  using assms by (simp add: trapezoid_def trapezoid_ref_def fsub_def fadd_def fmul_def)

lemma trapezoid_sum_map_Num:
  assumes "length t = length a" "Suc k < length a"
  shows "trapezoid_sum (map Num a) (map Num t) k = Num (\<Sum>i\<le>k. trapezoid_ref a t i)"
  using assms(2)
proof (induction k)
  case 0
  with assms(1) show ?case by (simp add: trapezoid_map_Num)
next
  case (Suc k)
  then have "trapezoid_sum (map Num a) (map Num t) k = Num (\<Sum>i\<le>k. trapezoid_ref a t i)"
    by simp
  with Suc.prems assms(1) show ?case
    by (simp add: trapezoid_map_Num fadd_def)
qed

lemma cumtrapz_map_Num:
  assumes "length t = length a" "a \<noteq> []"
  shows "cumtrapz (map Num a) (map Num t) =
     Inr (map Num (map (\<lambda>k. \<Sum>i\<le>k. trapezoid_ref a t i) [0..<length a - 1]))"
proof -
  from assms have l: "length (map Num t) = length (map Num a)" "map Num a \<noteq> []"
    by simp_all
  from cumtrapz_trapezoid [OF l] obtain r where
    r: "cumtrapz (map Num a) (map Num t) = Inr r" "length r = length a - 1"
    and k: "\<forall>k. Suc k < length a \<longrightarrow> r ! k = trapezoid_sum (map Num a) (map Num t) k"
    by auto
  have "r = map Num (map (\<lambda>k. \<Sum>i\<le>k. trapezoid_ref a t i) [0..<length a - 1])"
  proof (rule nth_equalityI)
    show "length r = length (map Num (map (\<lambda>k. \<Sum>i\<le>k. trapezoid_ref a t i) [0..<length a - 1]))"
      using r(2) by simp
  next
    fix i assume "i < length r"
    with r(2) have i: "Suc i < length a" by simp
    with k have "r ! i = trapezoid_sum (map Num a) (map Num t) i" by simp
    with trapezoid_sum_map_Num [OF assms(1) i] i
    show "r ! i = map Num (map (\<lambda>k. \<Sum>i\<le>k. trapezoid_ref a t i) [0..<length a - 1]) ! i"
      by simp
  qed
  with r(1) show ?thesis by simp
qed

lemma length_anomaly_ref: "length (anomaly_ref ys) = length ys"
  by (simp add: anomaly_ref_def)

lemma cumulative_map_Num:
  assumes "length ts = length ys" "ys \<noteq> []"
    and "mean_fn (map Num ys) = Num (mean_ref ys)"
  shows "cumtrapz (remove_mean mean_fn (map Num ys)) (map Num ts) =
     Inr (map Num (cumulative_ref ys ts))"
proof -
  from assms(1,2) have "length ts = length (anomaly_ref ys)" "anomaly_ref ys \<noteq> []"
    by (simp_all add: anomaly_ref_def)
  from cumtrapz_map_Num [OF this] show ?thesis
    by (simp add: remove_mean_map_Num [of mean_fn ys, OF assms(3)] cumulative_ref_def
        length_anomaly_ref)
qed

lemma mean_ref_replicate: "0 < n \<Longrightarrow> mean_ref (replicate n c) = c"
  by (simp add: mean_ref_def sum_list_replicate)

lemma cumulative_ref_constant:
  assumes "ys = replicate (length ys) c" "ys \<noteq> []"
  shows "cumulative_ref ys ts = replicate (length ys - 1) 0"
proof -
  from assms(2) have n: "0 < length ys" by simp
  have "anomaly_ref (replicate (length ys) c) = replicate (length ys) 0"
    by (simp add: anomaly_ref_def mean_ref_replicate [OF n])
  with assms(1) have a: "anomaly_ref ys = replicate (length ys) 0" by simp
  have "(\<Sum>i\<le>k. trapezoid_ref (replicate (length ys) 0) ts i) = 0" if "Suc k < length ys" for k
  proof -
    have "trapezoid_ref (replicate (length ys) 0) ts i = 0" if "i \<le> k" for i
      using that \<open>Suc k < length ys\<close> by (simp add: trapezoid_ref_def)
    then show ?thesis by simp
  qed
  then show ?thesis
    by (simp add: cumulative_ref_def a list_eq_iff_nth_eq)
qed

text \<open>
  C10: for a series with as many time points as values, and at least one, the
  integration succeeds in both cells and returns a series one shorter than the input.
  On numbers the result is the reference \<open>cumulative_ref\<close>: its \<open>k\<close>-th element is the
  sum of the first \<open>k + 1\<close> trapezoid areas under the anomalies, that is, under the
  series minus its mean (\<open>np.mean\<close> in the Byrd cell, \<open>np.nanmean\<close> in the Larsen C
  cell). For a constant series the mean removed is the constant, and the result is all
  zeros.
\<close>

theorem C10_cumulative_integrate:
  "(length time_smb = length mean_smb \<and> mean_smb \<noteq> [] \<longrightarrow>
      (\<exists>r. cumulative_integrate_byrd mean_smb time_smb = Inr r \<and>
           length r = length mean_smb - 1) \<and>
      (\<exists>r. cumulative_integrate_larsen mean_smb time_smb = Inr r \<and>
           length r = length mean_smb - 1)) \<and>
   (length ts = length ys \<and> ys \<noteq> [] \<longrightarrow>
      cumulative_integrate_byrd (map Num ys) (map Num ts) = Inr (map Num (cumulative_ref ys ts)) \<and>
      cumulative_integrate_larsen (map Num ys) (map Num ts) = Inr (map Num (cumulative_ref ys ts)) \<and>
      length (cumulative_ref ys ts) = length ys - 1 \<and>
      (\<forall>c. ys = replicate (length ys) c \<longrightarrow>
         cumulative_ref ys ts = replicate (length ys - 1) 0))"
proof (intro conjI impI allI)
  assume a: "length time_smb = length mean_smb \<and> mean_smb \<noteq> []"
  have "\<exists>r. cumtrapz (remove_mean mean_fn mean_smb) time_smb = Inr r \<and>
      length r = length mean_smb - 1" for mean_fn
  proof -
    from a have "length time_smb = length (remove_mean mean_fn mean_smb)"
      "remove_mean mean_fn mean_smb \<noteq> []"
      by (simp_all add: remove_mean_def)
    from cumtrapz_trapezoid [OF this] show ?thesis
      by (auto simp: remove_mean_def)
  qed
  then show "\<exists>r. cumulative_integrate_byrd mean_smb time_smb = Inr r \<and>
      length r = length mean_smb - 1"
    and "\<exists>r. cumulative_integrate_larsen mean_smb time_smb = Inr r \<and>
      length r = length mean_smb - 1"
    by (simp_all add: cumulative_integrate_byrd_def cumulative_integrate_larsen_def)
next
  assume b: "length ts = length ys \<and> ys \<noteq> []"
  then have l: "length ts = length ys" and ne: "ys \<noteq> []" by simp_all
  show "cumulative_integrate_byrd (map Num ys) (map Num ts) = Inr (map Num (cumulative_ref ys ts))"
    unfolding cumulative_integrate_byrd_def
    by (rule cumulative_map_Num [of ts ys np_mean, OF l ne np_mean_map_Num [OF ne]])
  show "cumulative_integrate_larsen (map Num ys) (map Num ts) = Inr (map Num (cumulative_ref ys ts))"
    unfolding cumulative_integrate_larsen_def
    by (rule cumulative_map_Num [of ts ys np_nanmean, OF l ne np_nanmean_map_Num [OF ne]])
  show "length (cumulative_ref ys ts) = length ys - 1"
    by (simp add: cumulative_ref_def)
  fix c assume "ys = replicate (length ys) c"
  then show "cumulative_ref ys ts = replicate (length ys - 1) 0"
    using ne by (rule cumulative_ref_constant)
qed

lemma cumulative_ref_example:
  "cumulative_ref [1, 2, 3, 6] [0, 1, 2, 4] = [- 3 / 2, - 2, 1]"
  by (simp add: cumulative_ref_def anomaly_ref_def mean_ref_def trapezoid_ref_def
      upt_conv_Cons atMost_Suc numeral_2_eq_2)

theorem C10_cumulative_integrate_witness:
  "cumulative_integrate_byrd [Num 1, Num 2, Num 3, Num 6] [Num 0, Num 1, Num 2, Num 4]
     = Inr [Num (- 3 / 2), Num (- 2), Num 1] \<and>
   cumulative_integrate_larsen [Num 1, Num 2, Num 3, Num 6] [Num 0, Num 1, Num 2, Num 4]
     = Inr [Num (- 3 / 2), Num (- 2), Num 1] \<and>
   cumulative_integrate_byrd [Num 1, Num 1, Num 1, Num 1] [Num 0, Num 1, Num 2, Num 3]
     = Inr [Num 0, Num 0, Num 0] \<and>
   cumulative_integrate_larsen [Num 1, Num 1, Num 1, Num 1] [Num 0, Num 1, Num 2, Num 3]
     = Inr [Num 0, Num 0, Num 0]"
proof -
  have h: "length [0, 1, 2, 4 :: real] = length [1, 2, 3, 6 :: real] \<and> [1, 2, 3, 6 :: real] \<noteq> []"
    by simp
  from C10_cumulative_integrate [of _ _ "[0, 1, 2, 4]" "[1, 2, 3, 6]"] h
  have "cumulative_integrate_byrd (map Num [1, 2, 3, 6]) (map Num [0, 1, 2, 4])
        = Inr (map Num (cumulative_ref [1, 2, 3, 6] [0, 1, 2, 4]))"
    and "cumulative_integrate_larsen (map Num [1, 2, 3, 6]) (map Num [0, 1, 2, 4])
        = Inr (map Num (cumulative_ref [1, 2, 3, 6] [0, 1, 2, 4]))"
    by blast+
  then have v: "cumulative_integrate_byrd [Num 1, Num 2, Num 3, Num 6] [Num 0, Num 1, Num 2, Num 4]
     = Inr [Num (- 3 / 2), Num (- 2), Num 1]"
    "cumulative_integrate_larsen [Num 1, Num 2, Num 3, Num 6] [Num 0, Num 1, Num 2, Num 4]
     = Inr [Num (- 3 / 2), Num (- 2), Num 1]"
    by (simp_all add: cumulative_ref_example)
  have h': "length [0, 1, 2, 3 :: real] = length [1, 1, 1, 1 :: real] \<and> [1, 1, 1, 1 :: real] \<noteq> []"
    by simp
  have c: "[1, 1, 1, 1 :: real] = replicate (length [1, 1, 1, 1 :: real]) 1"
    by (simp add: numeral_eq_Suc)
  from C10_cumulative_integrate [of _ _ "[0, 1, 2, 3]" "[1, 1, 1, 1]"] h' c
  have "cumulative_integrate_byrd (map Num [1, 1, 1, 1]) (map Num [0, 1, 2, 3])
        = Inr (map Num (cumulative_ref [1, 1, 1, 1] [0, 1, 2, 3]))"
    and "cumulative_integrate_larsen (map Num [1, 1, 1, 1]) (map Num [0, 1, 2, 3])
        = Inr (map Num (cumulative_ref [1, 1, 1, 1] [0, 1, 2, 3]))"
    and "cumulative_ref [1, 1, 1, 1] [0, 1, 2, 3] = replicate (length [1, 1, 1, 1 :: real] - 1) 0"
    by blast+
  then have z: "cumulative_integrate_byrd [Num 1, Num 1, Num 1, Num 1] [Num 0, Num 1, Num 2, Num 3]
     = Inr [Num 0, Num 0, Num 0]"
    "cumulative_integrate_larsen [Num 1, Num 1, Num 1, Num 1] [Num 0, Num 1, Num 2, Num 3]
     = Inr [Num 0, Num 0, Num 0]"
    by (simp_all add: numeral_eq_Suc)
  from v z show ?thesis by blast
qed

subsection \<open>C8: the regional mean and missing values\<close>

lemma foldl_fadd_NaN: "foldl fadd NaN xs = NaN"
  by (induction xs) (simp_all add: fadd_def)

lemma foldl_fadd_has_NaN: "NaN \<in> set xs \<Longrightarrow> foldl fadd a xs = NaN"
proof (induction xs arbitrary: a)
  case Nil
  then show ?case by simp
next
  case (Cons x xs)
  show ?case
  proof (cases "x = NaN")
    case True
    then have "fadd a x = NaN" by (cases a) (simp_all add: fadd_def)
    then show ?thesis by (simp add: foldl_fadd_NaN)
  next
    case False
    with Cons show ?thesis by simp
  qed
qed

lemma np_mean_has_NaN: "NaN \<in> set xs \<Longrightarrow> np_mean xs = NaN"
  by (simp add: np_mean_def np_sum_def foldl_fadd_has_NaN)

lemma spatial_mean_byrd_poisoned:
  assumes "take_inds field inds = Inr sel" "NaN \<in> set sel"
  shows "spatial_mean_byrd field inds = Inr NaN"
  using assms by (simp add: spatial_mean_byrd_def and_then_def np_mean_has_NaN)

lemma np_nanmean_valid:
  "np_nanmean xs = np_mean (filter (\<lambda>v. v \<noteq> NaN) xs)"
proof -
  have "(\<lambda>v. \<not> isnan v) = (\<lambda>v. v \<noteq> NaN)"
    by (auto simp: isnan_def split: fl.splits)
  then show ?thesis by (simp add: np_nanmean_def)
qed

lemma np_nanmean_none_valid: "set xs \<subseteq> {NaN} \<Longrightarrow> np_nanmean xs = NaN"
proof -
  assume "set xs \<subseteq> {NaN}"
  then have "filter (\<lambda>v. v \<noteq> NaN) xs = []"
    by (auto simp: filter_empty_conv)
  then show ?thesis
    by (simp add: np_nanmean_valid np_mean_def np_sum_def)
qed

text \<open>
  C8 at the array \<open>[1.0, missing, 3.0]\<close>, with all three cells inside the box: the Byrd
  cell, which calls \<open>np.mean\<close>, gives not-a-number where the claim says 2.0; the
  Larsen C cell, which calls \<open>np.nanmean\<close> on the same quantity, gives 2.0.
\<close>

theorem C8_mean_of_1_nan_3:
  "spatial_mean_byrd [Num 1, NaN, Num 3] [0, 1, 2] = Inr NaN \<and>
   spatial_mean_larsen [Num 1, NaN, Num 3] [0, 1, 2] = Inr (Num 2) \<and>
   mean_fac_byrd_series [(Num 150, Num (- 80)), (Num 151, Num (- 80)), (Num 152, Num (- 80))]
     [[Num 1, NaN, Num 3]] = Inr [NaN] \<and>
   mean_fac_larsen_series [(Num (- 63), Num (- 67)), (Num (- 63), Num (- 67)), (Num (- 63), Num (- 67))]
     [[Num 1, NaN, Num 3]] = Inr [Num 2]"
  by (simp add: spatial_mean_byrd_def spatial_mean_larsen_def mean_fac_byrd_series_def
      mean_fac_larsen_series_def np_where_def in_box_def fgt_def take_inds_def and_then_def
      np_mean_def np_nanmean_def np_sum_def isnan_def fadd_def upt_conv_Cons)

subsection \<open>C7: query points outside the convex hull\<close>

















subsection \<open>C6: source points whose value is missing\<close>

lemma fadd_NaN_right: "fadd a NaN = NaN"
  by (cases a) (simp_all add: fadd_def)

lemma fadd_NaN_left: "fadd NaN b = NaN"
  by (simp add: fadd_def)

lemma combine_poisoned:
  "vals ! i = NaN \<or> vals ! j = NaN \<or> vals ! k = NaN \<Longrightarrow> combine vals (i, j, k) c = NaN"
  by (cases c) (auto simp: combine_def fmul_NaN fadd_NaN_right fadd_NaN_left)

lemma find_simplex_coords:
  assumes "find_simplex tri points q = Some s"
  shows "\<exists>c. coords_in points q s = Some c"
proof -
  from assms have "find (in_simplex points q) tri = Some s"
    by (simp add: find_simplex_def split: if_splits)
  then have "in_simplex points q s"
    by (auto simp: find_Some_iff)
  then show ?thesis
    by (auto simp: in_simplex_def split: option.splits)
qed

lemma linear_interp_poisoned:
  assumes "find_simplex tri points (qx, qy) = Some (i, j, k)"
    and "vals ! i = NaN \<or> vals ! j = NaN \<or> vals ! k = NaN"
  shows "linear_interp tri points vals (Num qx, Num qy) = NaN"
  using assms by (simp add: linear_interp_def combine_poisoned split: option.splits)

lemma zip_conv_map_nth:
  assumes "length ys = length xs"
  shows "zip xs ys = map (\<lambda>i. (xs ! i, ys ! i)) [0..<length xs]"
  using assms by (intro nth_equalityI) simp_all

lemma map_np_where:
  assumes "length ys = length xs"
  shows "map (\<lambda>i. ys ! i) (np_where P xs) = map snd (filter (\<lambda>c. P (fst c)) (zip xs ys))"
  by (simp add: np_where_def zip_conv_map_nth [OF assms] filter_map o_def)

lemma np_where_bound: "list_all (\<lambda>i. i < length xs) (np_where P xs)"
  by (simp add: np_where_def list_all_iff)

lemma take_inds_np_where:
  assumes "length ys = length xs"
  shows "take_inds ys (np_where P xs) = Inr (map snd (filter (\<lambda>c. P (fst c)) (zip xs ys)))"
  using np_where_bound [of xs P] assms
  by (simp add: take_inds_def map_np_where)

lemma subset_byrd_value:
  assumes "length xy_fac = length lonlat_fac" "length meanFirnAir_16 = length lonlat_fac"
  shows "subset_byrd lonlat_fac xy_fac meanFirnAir_16 =
     Inr (map snd (filter (\<lambda>c. in_box 147 163 (- 82) (- 78) (fst c)) (zip lonlat_fac xy_fac)),
          map snd (filter (\<lambda>c. in_box 147 163 (- 82) (- 78) (fst c))
            (zip lonlat_fac meanFirnAir_16)))"
  by (simp add: subset_byrd_def Let_def and_then_def take_inds_np_where [OF assms(1)]
      take_inds_np_where [OF assms(2)])

lemma zip_filter_fst:
  assumes "length ys = length xs" "length zs = length xs"
  shows "zip (map snd (filter (\<lambda>c. P (fst c)) (zip xs ys)))
             (map snd (filter (\<lambda>c. P (fst c)) (zip xs zs)))
       = map snd (filter (\<lambda>c. P (fst c)) (zip xs (zip ys zs)))"
  using assms
proof (induction xs arbitrary: ys zs)
  case Nil
  then show ?case by simp
next
  case (Cons x xs)
  then obtain y ys' z zs' where "ys = y # ys'" "zs = z # zs'"
    by (cases ys; cases zs) auto
  with Cons show ?case by simp
qed

lemma length_filter_zip:
  assumes "length ys = length xs"
  shows "length (filter (\<lambda>c. P (fst c)) (zip xs ys)) = length (filter P xs)"
  using assms
proof (induction xs arbitrary: ys)
  case Nil
  then show ?case by simp
next
  case (Cons x xs)
  then obtain y ys' where "ys = y # ys'" by (cases ys) auto
  with Cons show ?case by simp
qed

lemma cell_in_filter:
  assumes "length ys = length xs" "m < length xs" "P (xs ! m)"
  shows "ys ! m \<in> set (map snd (filter (\<lambda>c. P (fst c)) (zip xs ys)))"
proof -
  from assms(1,2) have "(xs ! m, ys ! m) \<in> set (zip xs ys)"
    by (auto simp: in_set_zip)
  with assms(3) have "(xs ! m, ys ! m) \<in> set (filter (\<lambda>c. P (fst c)) (zip xs ys))"
    by simp
  then have "snd (xs ! m, ys ! m) \<in> snd ` set (filter (\<lambda>c. P (fst c)) (zip xs ys))"
    by (rule imageI)
  then show ?thesis by simp
qed

lemma griddata_poisoned:
  assumes "points \<noteq> []" "\<not> degenerate points" "length vals = length points"
    and "n < length xi" "xi ! n = (Num qx, Num qy)"
    and "find_simplex tri points (qx, qy) = Some (i, j, k)"
    and "vals ! i = NaN \<or> vals ! j = NaN \<or> vals ! k = NaN"
  shows "\<exists>r. griddata tri points vals xi = Inr r \<and> length r = length xi \<and> r ! n = NaN"
  using assms(1-5) linear_interp_poisoned [OF assms(6,7)]
  by (simp add: griddata_def)

lemma subset_byrd_example:
  "subset_byrd
     [(Num 150, Num (- 80)), (Num 151, Num (- 80)), (Num 151, Num (- 79)), (Num 150, Num (- 79)),
      (Num 150.5, Num (- 79.5))]
     [(0, 0), (4, 0), (4, 4), (0, 4), (2, 2)]
     [Num 1, Num 1, Num 1, Num 1, NaN]
   = Inr ([(0, 0), (4, 0), (4, 4), (0, 4), (2, 2)], [Num 1, Num 1, Num 1, Num 1, NaN])"
  by (simp add: subset_byrd_def np_where_def in_box_def fgt_def take_inds_def and_then_def
      upt_conv_Cons)

text \<open>
  C6, as stated: source points with a missing value are excluded before the
  triangulation, so that they never spoil a result nearby. It fails on a square of four
  source points with value 1 and a fifth in the centre whose value is missing: the
  subsetting keeps the centre, its triangulation joins every corner to it, and the
  query point \<open>(2, 1)\<close> gets not-a-number. Had the centre been excluded, the two
  triangles of the square would give 1 there.
\<close>

theorem C6_missing_source_included:
  "subset_byrd
     [(Num 150, Num (- 80)), (Num 151, Num (- 80)), (Num 151, Num (- 79)), (Num 150, Num (- 79)),
      (Num 150.5, Num (- 79.5))]
     [(0, 0), (4, 0), (4, 4), (0, 4), (2, 2)]
     [Num 1, Num 1, Num 1, Num 1, NaN]
   = Inr ([(0, 0), (4, 0), (4, 4), (0, 4), (2, 2)], [Num 1, Num 1, Num 1, Num 1, NaN]) \<and>
   griddata [(0, 1, 4), (1, 2, 4), (2, 3, 4), (3, 0, 4)]
     [(0, 0), (4, 0), (4, 4), (0, 4), (2, 2)] [Num 1, Num 1, Num 1, Num 1, NaN]
     [(Num 2, Num 1)] = Inr [NaN] \<and>
   griddata [(0, 1, 2), (0, 2, 3)]
     [(0, 0), (4, 0), (4, 4), (0, 4)] [Num 1, Num 1, Num 1, Num 1]
     [(Num 2, Num 1)] = Inr [Num 1]"
proof (intro conjI)
  show "subset_byrd
     [(Num 150, Num (- 80)), (Num 151, Num (- 80)), (Num 151, Num (- 79)), (Num 150, Num (- 79)),
      (Num 150.5, Num (- 79.5))]
     [(0, 0), (4, 0), (4, 4), (0, 4), (2, 2)]
     [Num 1, Num 1, Num 1, Num 1, NaN]
   = Inr ([(0, 0), (4, 0), (4, 4), (0, 4), (2, 2)], [Num 1, Num 1, Num 1, Num 1, NaN])"
    by (rule subset_byrd_example)
  show "griddata [(0, 1, 4), (1, 2, 4), (2, 3, 4), (3, 0, 4)]
     [(0, 0), (4, 0), (4, 4), (0, 4), (2, 2)] [Num 1, Num 1, Num 1, Num 1, NaN]
     [(Num 2, Num 1)] = Inr [NaN]"
    by (simp add: griddata_def degenerate_def linear_interp_def find_simplex_def
        fully_outside_def in_simplex_def coords_in_def barycentric_def cross_def Let_def eps_def
        combine_def fadd_def fmul_def)
  show "griddata [(0, 1, 2), (0, 2, 3)]
     [(0, 0), (4, 0), (4, 4), (0, 4)] [Num 1, Num 1, Num 1, Num 1]
     [(Num 2, Num 1)] = Inr [Num 1]"
    by (simp add: griddata_def degenerate_def linear_interp_def find_simplex_def
        fully_outside_def in_simplex_def coords_in_def barycentric_def cross_def Let_def eps_def
        combine_def fadd_def fmul_def)
qed

text \<open>
  C6, amended: for a grid with one position and one value per cell, the subsetting
  succeeds, and the source points with their values are exactly the cells of the
  longitude-latitude box, in the order of the grid, whatever the values: a cell of the
  box whose value is missing is a source point like any other. In the interpolation
  over these source points, every query point found in a triangle that has a corner
  with a missing value gets the missing marker.
\<close>

theorem C6_missing_source_poisons:
  assumes "length xy_fac = length lonlat_fac" "length meanFirnAir_16 = length lonlat_fac"
  shows "\<exists>xy vs. subset_byrd lonlat_fac xy_fac meanFirnAir_16 = Inr (xy, vs) \<and>
      length vs = length xy \<and>
      zip xy vs = map snd (filter (\<lambda>c. in_box 147 163 (- 82) (- 78) (fst c))
        (zip lonlat_fac (zip xy_fac meanFirnAir_16))) \<and>
      (\<forall>m<length lonlat_fac. in_box 147 163 (- 82) (- 78) (lonlat_fac ! m) \<longrightarrow>
         (xy_fac ! m, meanFirnAir_16 ! m) \<in> set (zip xy vs)) \<and>
      (\<forall>tri xi n qx qy i j k.
         xy \<noteq> [] \<and> \<not> degenerate xy \<and> n < length xi \<and> xi ! n = (Num qx, Num qy) \<and>
         find_simplex tri xy (qx, qy) = Some (i, j, k) \<and>
         (vs ! i = NaN \<or> vs ! j = NaN \<or> vs ! k = NaN) \<longrightarrow>
         (\<exists>r. griddata tri xy vs xi = Inr r \<and> length r = length xi \<and> r ! n = NaN))"
proof -
  let ?P = "\<lambda>c. in_box 147 163 (- 82) (- 78) (fst c)"
  let ?xy = "map snd (filter ?P (zip lonlat_fac xy_fac))"
  let ?vs = "map snd (filter ?P (zip lonlat_fac meanFirnAir_16))"
  have s: "subset_byrd lonlat_fac xy_fac meanFirnAir_16 = Inr (?xy, ?vs)"
    by (rule subset_byrd_value [OF assms])
  have l: "length ?vs = length ?xy"
    by (simp add: length_filter_zip [OF assms(1)] length_filter_zip [OF assms(2)])
  have z: "zip ?xy ?vs = map snd (filter ?P (zip lonlat_fac (zip xy_fac meanFirnAir_16)))"
    by (rule zip_filter_fst [OF assms])
  have c: "\<forall>m<length lonlat_fac. in_box 147 163 (- 82) (- 78) (lonlat_fac ! m) \<longrightarrow>
      (xy_fac ! m, meanFirnAir_16 ! m) \<in> set (zip ?xy ?vs)"
  proof (intro allI impI)
    fix m assume m: "m < length lonlat_fac" and b: "in_box 147 163 (- 82) (- 78) (lonlat_fac ! m)"
    from assms have lz: "length (zip xy_fac meanFirnAir_16) = length lonlat_fac" by simp
    from cell_in_filter [of "zip xy_fac meanFirnAir_16" lonlat_fac m "in_box 147 163 (- 82) (- 78)",
        OF lz m b] m assms
    show "(xy_fac ! m, meanFirnAir_16 ! m) \<in> set (zip ?xy ?vs)"
      by (simp only: z nth_zip)
  qed
  have g: "\<forall>tri xi n qx qy i j k.
         ?xy \<noteq> [] \<and> \<not> degenerate ?xy \<and> n < length xi \<and> xi ! n = (Num qx, Num qy) \<and>
         find_simplex tri ?xy (qx, qy) = Some (i, j, k) \<and>
         (?vs ! i = NaN \<or> ?vs ! j = NaN \<or> ?vs ! k = NaN) \<longrightarrow>
         (\<exists>r. griddata tri ?xy ?vs xi = Inr r \<and> length r = length xi \<and> r ! n = NaN)"
    using griddata_poisoned [where points = ?xy and vals = ?vs, OF _ _ l] by blast
  from s l z c g show ?thesis by blast
qed

lemma square_not_degenerate: "\<not> degenerate [(0, 0), (4, 0), (4, 4), (0, 4), (2, 2)]"
  by (simp add: degenerate_def cross_def)

lemma find_simplex_example:
  "find_simplex [(0, 1, 4), (1, 2, 4), (2, 3, 4), (3, 0, 4)]
     [(0, 0), (4, 0), (4, 4), (0, 4), (2, 2)] (3, 2) = Some (Suc 0, 2, 4)"
  by (simp add: find_simplex_def fully_outside_def in_simplex_def coords_in_def barycentric_def
      cross_def Let_def eps_def)

theorem C6_missing_source_poisons_witness:
  "subset_byrd
     [(Num 150, Num (- 80)), (Num 151, Num (- 80)), (Num 151, Num (- 79)), (Num 150, Num (- 79)),
      (Num 150.5, Num (- 79.5)), (Num 170, Num (- 80))]
     [(0, 0), (4, 0), (4, 4), (0, 4), (2, 2), (9, 9)]
     [Num 1, Num 1, Num 1, Num 1, NaN, Num 7]
   = Inr ([(0, 0), (4, 0), (4, 4), (0, 4), (2, 2)], [Num 1, Num 1, Num 1, Num 1, NaN]) \<and>
   griddata [(0, 1, 4), (1, 2, 4), (2, 3, 4), (3, 0, 4)]
     [(0, 0), (4, 0), (4, 4), (0, 4), (2, 2)] [Num 1, Num 1, Num 1, Num 1, NaN]
     [(Num 3, Num 2)] = Inr [NaN]"
proof -
  let ?ll = "[(Num 150, Num (- 80)), (Num 151, Num (- 80)), (Num 151, Num (- 79)),
      (Num 150, Num (- 79)), (Num 150.5, Num (- 79.5)), (Num 170, Num (- 80))]"
  let ?xyf = "[(0, 0), (4, 0), (4, 4), (0, 4), (2, 2), (9, 9)] :: point list"
  let ?mfa = "[Num 1, Num 1, Num 1, Num 1, NaN, Num 7]"
  let ?pts = "[(0, 0), (4, 0), (4, 4), (0, 4), (2, 2)] :: point list"
  let ?vals = "[Num 1, Num 1, Num 1, Num 1, NaN]"
  let ?tri = "[(0, 1, 4), (1, 2, 4), (2, 3, 4), (3, 0, 4)] :: simplex list"
  have h1: "length ?xyf = length ?ll" by simp
  have h2: "length ?mfa = length ?ll" by simp
  from C6_missing_source_poisons [OF h1 h2] obtain xy vs where
    s: "subset_byrd ?ll ?xyf ?mfa = Inr (xy, vs)"
    and z: "zip xy vs = map snd (filter (\<lambda>c. in_box 147 163 (- 82) (- 78) (fst c))
        (zip ?ll (zip ?xyf ?mfa)))"
    and l: "length vs = length xy"
    and g: "\<forall>tri xi n qx qy i j k.
         xy \<noteq> [] \<and> \<not> degenerate xy \<and> n < length xi \<and> xi ! n = (Num qx, Num qy) \<and>
         find_simplex tri xy (qx, qy) = Some (i, j, k) \<and>
         (vs ! i = NaN \<or> vs ! j = NaN \<or> vs ! k = NaN) \<longrightarrow>
         (\<exists>r. griddata tri xy vs xi = Inr r \<and> length r = length xi \<and> r ! n = NaN)"
    by blast
  from z have "zip xy vs = zip ?pts ?vals"
    by (simp add: in_box_def fgt_def)
  with l have e: "xy = ?pts \<and> vs = ?vals"
    by (simp add: zip_eq_conv)
  have p: "xy \<noteq> [] \<and> \<not> degenerate xy \<and> 0 < length [(Num 3, Num 2)] \<and>
      [(Num 3, Num 2)] ! 0 = (Num 3, Num 2) \<and>
      find_simplex ?tri xy (3, 2) = Some (Suc 0, 2, 4) \<and>
      (vs ! Suc 0 = NaN \<or> vs ! 2 = NaN \<or> vs ! 4 = NaN)"
    using e find_simplex_example square_not_degenerate by simp
  from g p obtain r where
    "griddata ?tri xy vs [(Num 3, Num 2)] = Inr r" "length r = length [(Num 3, Num 2)]"
    "r ! 0 = NaN"
    by blast
  then have "griddata ?tri xy vs [(Num 3, Num 2)] = Inr [NaN]"
    by (cases r) simp_all
  with s e show ?thesis by simp
qed

end
